theory Spec2Isabelle
  imports Main "HOL-Library.Word" "HOL-Library.Char_ord" "HOL-Library.List_Lexorder"
begin

section \<open>The wire model of the stream provider\<close>

text \<open>
  The types of this section are the ones the program receives from the provider's client
  library (\<^verbatim>\<open>dynamodb.AttributeValue\<close>, \<^verbatim>\<open>dynamodbstreams.Record\<close>,
  \<^verbatim>\<open>dynamodbstreams.StreamRecord\<close>, \<^verbatim>\<open>dynamodbstreams.Identity\<close>). A Go pointer, slice
  or map that may be \<^verbatim>\<open>nil\<close> is an \<open>option\<close>: \<open>None\<close> is \<^verbatim>\<open>nil\<close>, \<open>Some []\<close> is an
  allocated value of length zero, which Go's \<^verbatim>\<open>!= nil\<close> test tells apart from \<^verbatim>\<open>nil\<close>.
  A Go map is the list of its entries (keys pairwise distinct; the order of the list
  stands for the unspecified iteration order of the map).

  The members of a list or map of attribute values are pointers
  (\<^verbatim>\<open>[]*AttributeValue\<close>, \<^verbatim>\<open>map[string]*AttributeValue\<close>), and so are the values of the
  key and image mappings of a stream record: the client library leaves such a pointer
  \<^verbatim>\<open>nil\<close> where the wire document has \<^verbatim>\<open>null\<close>, so each member is an \<open>option\<close>. The
  records of a batch and the shards of a listing are modelled as the structures they
  point to; a \<^verbatim>\<open>nil\<close> record or shard is not represented. An \<^verbatim>\<open>int64\<close> is an \<open>int\<close>: the
  program copies such values and computes nothing with them.
\<close>

type_synonym byte = "8 word"

datatype AttributeValue = AttributeValue
  (B: "byte list option")
  (BOOL: "bool option")
  (BS: "byte list list option")
  (L: "AttributeValue option list option")
  (M: "(string \<times> AttributeValue option) list option")
  (N: "string option")
  (NS: "string option list option")
  (NULL: "bool option")
  (S: "string option")
  (SS: "string option list option")

text \<open>\<^verbatim>\<open>time.Time\<close>: seconds since the epoch and the nanoseconds within the second;
  \<^verbatim>\<open>Unix()\<close> returns the seconds.\<close>

datatype Time = Time (sec: int) (nsec: nat)

definition Unix :: "Time \<Rightarrow> int" where
  "Unix t = sec t"

record Identity =
  PrincipalId :: "string option"
  Type :: "string option"

record dynamodbstreams_StreamRecord =
  raw_ApproximateCreationDateTime :: "Time option"
  raw_Keys :: "(string \<times> AttributeValue option) list option"
  raw_NewImage :: "(string \<times> AttributeValue option) list option"
  raw_OldImage :: "(string \<times> AttributeValue option) list option"
  raw_SequenceNumber :: "string option"
  raw_SizeBytes :: "int option"
  raw_StreamViewType :: "string option"

record dynamodbstreams_Record =
  raw_AwsRegion :: "string option"
  raw_Dynamodb :: "dynamodbstreams_StreamRecord option"
  raw_EventID :: "string option"
  raw_EventName :: "string option"
  raw_EventSource :: "string option"
  raw_EventVersion :: "string option"
  raw_UserIdentity :: "Identity option"

section \<open>The record transformation layer\<close>

text \<open>
  The record file embedded here is the one \<^verbatim>\<open>App.Run\<close> is written against: it declares
  \<^verbatim>\<open>DynamoDBEvent\<close> and \<^verbatim>\<open>Record.EventSourceArn\<close>, and its \<^verbatim>\<open>NewAttributeValue\<close> takes
  a pointer to one attribute value and returns one of the single-variant structures.
\<close>

subsection \<open>The single-variant structures\<close>

text \<open>
  \<^verbatim>\<open>NewAttributeValue\<close> returns an \<^verbatim>\<open>interface{}\<close>: either \<^verbatim>\<open>nil\<close> or one of the ten
  structures \<^verbatim>\<open>AttributeValueB\<close>, ..., \<^verbatim>\<open>AttributeValueSS\<close>, each of which declares
  exactly one field, of the type given here.
\<close>

datatype iface =
    nil
  | AttributeValueB "byte list option"
  | AttributeValueBOOL "bool option"
  | AttributeValueBS "byte list list option"
  | AttributeValueL "iface list option"
  | AttributeValueM "(string \<times> iface) list option"
  | AttributeValueN "string option"
  | AttributeValueNS "string option list option"
  | AttributeValueNULL "bool option"
  | AttributeValueS "string option"
  | AttributeValueSS "string option list option"

text \<open>A Go run-time panic ends the run; it is not an \<^verbatim>\<open>error\<close> value.\<close>

datatype panic = NilPointerDereference | IndexOutOfRange

text \<open>
  \<^verbatim>\<open>NewAttributeValue\<close> takes a pointer and reads \<^verbatim>\<open>a.B\<close> first, without a test of the
  pointer: a \<^verbatim>\<open>nil\<close> argument panics. Then comes the chain of presence checks, in the
  order of the source. The two loops \<^verbatim>\<open>NewAttributeValueMap\<close> and
  \<^verbatim>\<open>NewAttributeValueList\<close> call \<^verbatim>\<open>NewAttributeValue\<close> on every member and return a
  freshly made (non-nil) container; a panic of a member ends the loop and the callers.
  \<^verbatim>\<open>NewAttributeValueMap\<close> takes the entries the \<^verbatim>\<open>range\<close> loop visits.
\<close>

fun NewAttributeValue :: "AttributeValue option \<Rightarrow> panic + iface"
  and NewAttributeValueMap ::
    "(string \<times> AttributeValue option) list \<Rightarrow> panic + (string \<times> iface) list"
  and NewAttributeValueList :: "AttributeValue option list \<Rightarrow> panic + iface list" where
  "NewAttributeValue None = Inl NilPointerDereference"
| "NewAttributeValue (Some (AttributeValue b bool bs l m n ns null s ss)) =
     (if b \<noteq> None then Inr (AttributeValueB b)
      else if bool \<noteq> None then Inr (AttributeValueBOOL bool)
      else if bs \<noteq> None then Inr (AttributeValueBS bs)
      else if n \<noteq> None then Inr (AttributeValueN n)
      else if ns \<noteq> None then Inr (AttributeValueNS ns)
      else if null \<noteq> None then Inr (AttributeValueNULL null)
      else if s \<noteq> None then Inr (AttributeValueS s)
      else if ss \<noteq> None then Inr (AttributeValueSS ss)
      else (case l of
              Some xs \<Rightarrow>
               (case NewAttributeValueList xs of
                  Inl p \<Rightarrow> Inl p
                | Inr ys \<Rightarrow> Inr (AttributeValueL (Some ys)))
            | None \<Rightarrow>
               (case m of
                  Some kvs \<Rightarrow>
                   (case NewAttributeValueMap kvs of
                      Inl p \<Rightarrow> Inl p
                    | Inr r \<Rightarrow> Inr (AttributeValueM (Some r)))
                | None \<Rightarrow> Inr nil)))"
| "NewAttributeValueMap [] = Inr []"
| "NewAttributeValueMap ((k, v) # kvs) =
     (case NewAttributeValue v of
        Inl p \<Rightarrow> Inl p
      | Inr vv \<Rightarrow>
         (case NewAttributeValueMap kvs of
            Inl p \<Rightarrow> Inl p
          | Inr r \<Rightarrow> Inr ((k, vv) # r)))"
| "NewAttributeValueList [] = Inr []"
| "NewAttributeValueList (a # as) =
     (case NewAttributeValue a of
        Inl p \<Rightarrow> Inl p
      | Inr aa \<Rightarrow>
         (case NewAttributeValueList as of
            Inl p \<Rightarrow> Inl p
          | Inr r \<Rightarrow> Inr (aa # r)))"

text \<open>The entries a \<^verbatim>\<open>range\<close> loop visits: none for a \<^verbatim>\<open>nil\<close> map.\<close>

definition range_entries :: "(string \<times> 'a) list option \<Rightarrow> (string \<times> 'a) list" where
  "range_entries m = (case m of None \<Rightarrow> [] | Some kvs \<Rightarrow> kvs)"

subsection \<open>Records\<close>

record StreamRecord =
  ApproximateCreationDateTime :: "int option"
  Keys :: "(string \<times> iface) list option"
  NewImage :: "(string \<times> iface) list option"
  OldImage :: "(string \<times> iface) list option"
  SequenceNumber :: "string option"
  SizeBytes :: "int option"
  StreamViewType :: "string option"

record Record =
  AwsRegion :: "string option"
  Dynamodb :: "StreamRecord option"
  EventID :: "string option"
  EventName :: "string option"
  EventSource :: "string option"
  EventVersion :: "string option"
  EventSourceArn :: "string option"
  UserIdentity :: "Identity option"

record DynamoDBEvent =
  Records :: "Record list"

text \<open>
  \<^verbatim>\<open>NewStreamRecord\<close> takes a pointer. The field expressions of its composite literal are
  evaluated in order: the first calls \<^verbatim>\<open>Unix()\<close> through the pointer
  \<^verbatim>\<open>r.ApproximateCreationDateTime\<close>, which panics when \<^verbatim>\<open>r\<close> or the timestamp is \<^verbatim>\<open>nil\<close>;
  the next three encode the key mapping and the two images, and panic when the encoder
  does. The literal sets six fields; \<^verbatim>\<open>StreamViewType\<close> is not among them and keeps its
  zero value \<^verbatim>\<open>nil\<close>.
\<close>

definition NewStreamRecord :: "dynamodbstreams_StreamRecord option \<Rightarrow> panic + StreamRecord" where
  "NewStreamRecord p =
     (case p of
        None \<Rightarrow> Inl NilPointerDereference
      | Some r \<Rightarrow>
         (case raw_ApproximateCreationDateTime r of
            None \<Rightarrow> Inl NilPointerDereference
          | Some t \<Rightarrow>
             (case NewAttributeValueMap (range_entries (raw_Keys r)) of
                Inl p \<Rightarrow> Inl p
              | Inr keys \<Rightarrow>
                 (case NewAttributeValueMap (range_entries (raw_NewImage r)) of
                    Inl p \<Rightarrow> Inl p
                  | Inr newImage \<Rightarrow>
                     (case NewAttributeValueMap (range_entries (raw_OldImage r)) of
                        Inl p \<Rightarrow> Inl p
                      | Inr oldImage \<Rightarrow> Inr \<lparr>
                          ApproximateCreationDateTime = Some (Unix t),
                          Keys = Some keys,
                          NewImage = Some newImage,
                          OldImage = Some oldImage,
                          SequenceNumber = raw_SequenceNumber r,
                          SizeBytes = raw_SizeBytes r,
                          StreamViewType = None \<rparr>)))))"

text \<open>\<^verbatim>\<open>NewRecord\<close> leaves \<^verbatim>\<open>EventSourceArn\<close> at its zero value; the caller sets it.\<close>

definition NewRecord :: "dynamodbstreams_Record \<Rightarrow> panic + Record" where
  "NewRecord r =
     (case NewStreamRecord (raw_Dynamodb r) of
        Inl p \<Rightarrow> Inl p
      | Inr sr \<Rightarrow> Inr \<lparr>
          AwsRegion = raw_AwsRegion r,
          Dynamodb = Some sr,
          EventID = raw_EventID r,
          EventName = raw_EventName r,
          EventSource = raw_EventSource r,
          EventVersion = raw_EventVersion r,
          EventSourceArn = None,
          UserIdentity = raw_UserIdentity r \<rparr>)"

subsection \<open>The serialized form\<close>

text \<open>
  The envelope is rendered by \<^verbatim>\<open>json.MarshalIndent\<close>. The rendering of the structures
  declared by the program follows from their declarations: an object has one member per
  exported field, in declaration order, under the name of the \<^verbatim>\<open>json\<close> tag when the field
  has one and under the Go field name otherwise (the \<^verbatim>\<open>locationName\<close> tags are not
  \<^verbatim>\<open>json\<close> tags); a field tagged \<^verbatim>\<open>omitempty\<close> is left out when it is a map of length
  zero; a \<^verbatim>\<open>nil\<close> pointer, slice, map or interface is \<^verbatim>\<open>null\<close>; a byte slice is a
  base64 string (kept here as the bytes it encodes); the members of a map are written
  sorted by key. The model is the syntax tree of the document, not its indented text.
\<close>

datatype json =
    JNull
  | JBool bool
  | JNumber int
  | JString string
  | JBase64 "byte list"
  | JArray "json list"
  | JObject "(string \<times> json) list"

definition json_string :: "string option \<Rightarrow> json" where
  "json_string p = (case p of None \<Rightarrow> JNull | Some s \<Rightarrow> JString s)"

definition json_bool :: "bool option \<Rightarrow> json" where
  "json_bool p = (case p of None \<Rightarrow> JNull | Some b \<Rightarrow> JBool b)"

definition json_int64 :: "int option \<Rightarrow> json" where
  "json_int64 p = (case p of None \<Rightarrow> JNull | Some i \<Rightarrow> JNumber i)"

definition json_bytes :: "byte list option \<Rightarrow> json" where
  "json_bytes p = (case p of None \<Rightarrow> JNull | Some bs \<Rightarrow> JBase64 bs)"

definition json_byte_slices :: "byte list list option \<Rightarrow> json" where
  "json_byte_slices p = (case p of None \<Rightarrow> JNull | Some bss \<Rightarrow> JArray (map JBase64 bss))"

definition json_strings :: "string option list option \<Rightarrow> json" where
  "json_strings p = (case p of None \<Rightarrow> JNull | Some ss \<Rightarrow> JArray (map json_string ss))"

fun json_iface :: "iface \<Rightarrow> json"
  and json_members :: "(string \<times> iface) list \<Rightarrow> (string \<times> json) list"
  and json_elements :: "iface list \<Rightarrow> json list" where
  "json_iface nil = JNull"
| "json_iface (AttributeValueB b) = JObject [(''B'', json_bytes b)]"
| "json_iface (AttributeValueBOOL b) = JObject [(''BOOL'', json_bool b)]"
| "json_iface (AttributeValueBS bs) = JObject [(''BS'', json_byte_slices bs)]"
| "json_iface (AttributeValueL l) =
     JObject [(''L'', case l of None \<Rightarrow> JNull | Some xs \<Rightarrow> JArray (json_elements xs))]"
| "json_iface (AttributeValueM m) =
     JObject [(''M'', case m of None \<Rightarrow> JNull
                      | Some kvs \<Rightarrow> JObject (sort_key fst (json_members kvs)))]"
| "json_iface (AttributeValueN n) = JObject [(''N'', json_string n)]"
| "json_iface (AttributeValueNS ns) = JObject [(''NS'', json_strings ns)]"
| "json_iface (AttributeValueNULL b) = JObject [(''NULL'', json_bool b)]"
| "json_iface (AttributeValueS s) = JObject [(''S'', json_string s)]"
| "json_iface (AttributeValueSS ss) = JObject [(''SS'', json_strings ss)]"
| "json_members [] = []"
| "json_members ((k, v) # kvs) = (k, json_iface v) # json_members kvs"
| "json_elements [] = []"
| "json_elements (v # vs) = json_iface v # json_elements vs"

text \<open>A map field tagged \<^verbatim>\<open>json:",omitempty"\<close>: no member when the map has length zero.\<close>

definition omitempty_map :: "string \<Rightarrow> (string \<times> iface) list option \<Rightarrow> (string \<times> json) list" where
  "omitempty_map name m =
     (if length (range_entries m) = 0 then []
      else [(name, JObject (sort_key fst (json_members (range_entries m))))])"

definition json_StreamRecord :: "StreamRecord \<Rightarrow> json" where
  "json_StreamRecord s = JObject (
     [(''ApproximateCreationDateTime'', json_int64 (ApproximateCreationDateTime s))]
     @ omitempty_map ''Keys'' (Keys s)
     @ omitempty_map ''NewImage'' (NewImage s)
     @ omitempty_map ''OldImage'' (OldImage s)
     @ [(''SequenceNumber'', json_string (SequenceNumber s)),
        (''SizeBytes'', json_int64 (SizeBytes s)),
        (''StreamViewType'', json_string (StreamViewType s))])"

definition json_Identity :: "Identity \<Rightarrow> json" where
  "json_Identity i = JObject
     [(''PrincipalId'', json_string (PrincipalId i)), (''Type'', json_string (Type i))]"

definition json_Record :: "Record \<Rightarrow> json" where
  "json_Record r = JObject
     [(''AwsRegion'', json_string (AwsRegion r)),
      (''Dynamodb'', case Dynamodb r of None \<Rightarrow> JNull | Some s \<Rightarrow> json_StreamRecord s),
      (''EventID'', json_string (EventID r)),
      (''EventName'', json_string (EventName r)),
      (''EventSource'', json_string (EventSource r)),
      (''EventVersion'', json_string (EventVersion r)),
      (''eventSourceARN'', json_string (EventSourceArn r)),
      (''UserIdentity'', case UserIdentity r of None \<Rightarrow> JNull | Some i \<Rightarrow> json_Identity i)]"

definition json_DynamoDBEvent :: "DynamoDBEvent \<Rightarrow> json" where
  "json_DynamoDBEvent e = JObject [(''Records'', JArray (map json_Record (Records e)))]"

text \<open>The member names of an object, and the member under a name.\<close>

fun member_names :: "json \<Rightarrow> string list" where
  "member_names (JObject kvs) = map fst kvs"
| "member_names _ = []"

fun member :: "string \<Rightarrow> json \<Rightarrow> json option" where
  "member k (JObject kvs) = map_of kvs k"
| "member k _ = None"

section \<open>The stream-consumption loop\<close>

subsection \<open>The collaborators\<close>

text \<open>
  A Go \<^verbatim>\<open>error\<close> value: made by \<^verbatim>\<open>errors.New\<close>, by \<^verbatim>\<open>errors.Wrap\<close> around another
  error, or handed back by a collaborator.
\<close>

datatype error = errors_New string | errors_Wrap error string

record App =
  table :: string
  command :: string
  args :: "string list"

record DescribeTableOutput =
  LatestStreamArn :: "string option"

record Shard =
  ShardId :: "string option"

record DescribeStreamOutput =
  Shards :: "Shard list"

record GetShardIteratorInput =
  in_ShardId :: "string option"
  in_StreamArn :: "string option"
  in_ShardIteratorType :: "string option"

record GetShardIteratorOutput =
  ShardIterator :: "string option"

record GetRecordsOutput =
  out_Records :: "dynamodbstreams_Record list"
  NextShardIterator :: "string option"

text \<open>The constant of the client library for the oldest retained position of a shard.\<close>

definition ShardIteratorTypeTrimHorizon :: string where
  "ShardIteratorTypeTrimHorizon = ''TRIM_HORIZON''"

text \<open>
  What the run does to the outside, in order: the calls to the provider with their
  inputs, each record handed to \<^verbatim>\<open>NewRecord\<close>, each document handed to
  \<^verbatim>\<open>io.WriteString\<close> for the standard input of a sink process, each sink process run by
  \<^verbatim>\<open>CombinedOutput\<close> with its command, arguments and the document on its standard input,
  and each pause in seconds.
\<close>

datatype event =
    DescribeTable_call string
  | DescribeStream_call "string option"
  | GetShardIterator_call GetShardIteratorInput
  | GetRecords_call "string option"
  | NewRecord_call dynamodbstreams_Record
  | Stdin_write json
  | Command_run string "string list" json
  | Sleep nat

text \<open>
  The collaborators of one run. The three acquisition calls are made at most once, so
  each is its answer as a function of its input. \<^verbatim>\<open>GetRecords\<close> is the sequence of the
  answers the provider gives to the successive calls. An answer of the provider without
  error carries its output structure (\<^verbatim>\<open>dto.Table\<close> and \<^verbatim>\<open>dso.StreamDescription\<close> are not
  \<^verbatim>\<open>nil\<close>).

  The sink is reached in three steps, each of which may depend on everything that
  happened before. \<^verbatim>\<open>StdinPipe\<close> is the error of \<^verbatim>\<open>cmd.StdinPipe()\<close>, \<open>None\<close> when the
  pipe is created; with an error the returned writer is \<^verbatim>\<open>nil\<close>. \<open>pipe_holds\<close> tells
  whether the text of a document fits into the buffer of the pipe: the process is not
  started before \<^verbatim>\<open>CombinedOutput\<close>, so nothing reads the pipe while \<^verbatim>\<open>io.WriteString\<close>
  writes. \<^verbatim>\<open>CombinedOutput\<close> is what \<^verbatim>\<open>cmd.CombinedOutput()\<close> returns: an error when the
  process cannot be started, exits non-zero or its output cannot be collected, its
  output otherwise.
\<close>

record world =
  DescribeTable :: "string \<Rightarrow> error + DescribeTableOutput"
  DescribeStream :: "string option \<Rightarrow> error + DescribeStreamOutput"
  GetShardIterator :: "GetShardIteratorInput \<Rightarrow> error + GetShardIteratorOutput"
  GetRecords :: "(error + GetRecordsOutput) list"
  StdinPipe :: "event list \<Rightarrow> error option"
  pipe_holds :: "json \<Rightarrow> bool"
  CombinedOutput :: "event list \<Rightarrow> string \<Rightarrow> string list \<Rightarrow> json \<Rightarrow> error + byte list"

text \<open>
  How a run ends: \<^verbatim>\<open>Run\<close> returns (\<open>None\<close> is the \<^verbatim>\<open>nil\<close> error), it panics, or it stays
  blocked for ever in a write that nothing will read.
\<close>

datatype outcome = Returned "error option" | Panicked panic | Blocked

text \<open>Go indexing \<^verbatim>\<open>xs[i]\<close> with a signed index: a panic outside \<open>0 \<le> i < len(xs)\<close>.\<close>

definition index :: "'a list \<Rightarrow> int \<Rightarrow> panic + 'a" where
  "index xs i = (if 0 \<le> i \<and> i < int (length xs) then Inr (xs ! nat i) else Inl IndexOutOfRange)"

subsection \<open>The loop over one batch\<close>

text \<open>
  The first three statements of the loop body build the envelope of one record:
  \<^verbatim>\<open>NewRecord\<close>, the assignment of the table's stream identifier to \<^verbatim>\<open>EventSourceArn\<close>,
  and the \<^verbatim>\<open>append\<close> to the empty \<^verbatim>\<open>Records\<close> of a fresh \<^verbatim>\<open>DynamoDBEvent\<close>.
\<close>

definition transform :: "dynamodbstreams_Record \<Rightarrow> string option \<Rightarrow> panic + DynamoDBEvent" where
  "transform r streamId =
     (case NewRecord r of
        Inl p \<Rightarrow> Inl p
      | Inr nr \<Rightarrow> Inr \<lparr>Records = [] @ [nr\<lparr>EventSourceArn := streamId\<rparr>]\<rparr>)"

text \<open>
  The inner \<^verbatim>\<open>for _, r := range gro.Records\<close> loop. The result is \<open>None\<close> when the batch
  is drained and \<open>Some\<close> of the outcome when the loop ends the run, with the events so
  far. The error of \<^verbatim>\<open>cmd.StdinPipe()\<close> is discarded and the writer used as it is:
  \<^verbatim>\<open>io.WriteString\<close> panics on the \<^verbatim>\<open>nil\<close> writer of a failed pipe, and on a pipe it
  writes the whole document before the process exists, which never ends when the pipe
  does not hold the document. The results of \<^verbatim>\<open>io.WriteString\<close> and \<^verbatim>\<open>stdin.Close()\<close> are
  discarded. Only then \<^verbatim>\<open>CombinedOutput\<close> starts the process; its error ends the run.
\<close>

fun process_records ::
  "App \<Rightarrow> world \<Rightarrow> string option \<Rightarrow> event list \<Rightarrow> dynamodbstreams_Record list
     \<Rightarrow> outcome option \<times> event list" where
  "process_records a w arn h [] = (None, h)"
| "process_records a w arn h (r # rs) =
     (case transform r arn of
        Inl p \<Rightarrow> (Some (Panicked p), h @ [NewRecord_call r])
      | Inr records \<Rightarrow>
         (let rj = json_DynamoDBEvent records;
              h1 = h @ [NewRecord_call r];
              h2 = h1 @ [Stdin_write rj]
          in case StdinPipe w h1 of
               Some err \<Rightarrow> (Some (Panicked NilPointerDereference), h2)
             | None \<Rightarrow>
                 if \<not> pipe_holds w rj then (Some Blocked, h2)
                 else
                   (case CombinedOutput w h2 (command a) (args a) rj of
                      Inl err \<Rightarrow>
                        (Some (Returned (Some (errors_Wrap err ''failed cmd''))),
                         h2 @ [Command_run (command a) (args a) rj])
                    | Inr out \<Rightarrow>
                        process_records a w arn
                          (h2 @ [Command_run (command a) (args a) rj, Sleep 5]) rs)))"

subsection \<open>The polling loop\<close>

text \<open>
  The outer \<^verbatim>\<open>for\<close> loop, by recursion on the answers that \<^verbatim>\<open>GetRecords\<close> still has to
  give. Each iteration first prints \<^verbatim>\<open>*itr\<close>, which panics on a \<^verbatim>\<open>nil\<close> iterator; after the
  batch it tests \<^verbatim>\<open>*itr == ""\<close> on the successor, which panics on a \<^verbatim>\<open>nil\<close> successor.
  The loop may poll forever: the result is \<open>None\<close> when the run is still polling after
  the last given answer.
\<close>

fun poll_loop ::
  "App \<Rightarrow> world \<Rightarrow> string option \<Rightarrow> string option \<Rightarrow> event list
     \<Rightarrow> (error + GetRecordsOutput) list \<Rightarrow> outcome option \<times> event list" where
  "poll_loop a w arn itr h [] =
     (case itr of
        None \<Rightarrow> (Some (Panicked NilPointerDereference), h)
      | Some tok \<Rightarrow> (None, h))"
| "poll_loop a w arn itr h (answer # answers) =
     (case itr of
        None \<Rightarrow> (Some (Panicked NilPointerDereference), h)
      | Some tok \<Rightarrow>
         (case answer of
            Inl err \<Rightarrow>
              (Some (Returned (Some (errors_Wrap err ''failed get records''))),
               h @ [GetRecords_call itr])
          | Inr gro \<Rightarrow>
             (case process_records a w arn (h @ [GetRecords_call itr]) (out_Records gro) of
                (Some oc, h') \<Rightarrow> (Some oc, h')
              | (None, h') \<Rightarrow>
                 (case NextShardIterator gro of
                    None \<Rightarrow> (Some (Panicked NilPointerDereference), h')
                  | Some next \<Rightarrow>
                     if next = '''' then (Some (Returned None), h')
                     else poll_loop a w arn (NextShardIterator gro) (h' @ [Sleep 5]) answers))))"

subsection \<open>The run\<close>

text \<open>
  \<^verbatim>\<open>App.Run\<close>: the acquisition of the iterator, then the polling loop. The test
  \<^verbatim>\<open>*dto.Table.LatestStreamArn == ""\<close> dereferences the stream identifier; the shard is
  \<^verbatim>\<open>Shards[len(Shards)-1]\<close>, evaluated before the call to \<^verbatim>\<open>GetShardIterator\<close>.
\<close>

definition Run :: "App \<Rightarrow> world \<Rightarrow> outcome option \<times> event list" where
  "Run a w =
     (let h1 = [DescribeTable_call (table a)] in
      case DescribeTable w (table a) of
        Inl err \<Rightarrow> (Some (Returned (Some (errors_Wrap err ''failed describe table''))), h1)
      | Inr dto \<Rightarrow>
         (case LatestStreamArn dto of
            None \<Rightarrow> (Some (Panicked NilPointerDereference), h1)
          | Some arn \<Rightarrow>
             if arn = '''' then
               (Some (Returned (Some (errors_New ''disable dynamodb streams''))), h1)
             else
               (let h2 = h1 @ [DescribeStream_call (LatestStreamArn dto)] in
                case DescribeStream w (LatestStreamArn dto) of
                  Inl err \<Rightarrow>
                    (Some (Returned (Some (errors_Wrap err ''failed describe stream''))), h2)
                | Inr dso \<Rightarrow>
                   (case index (Shards dso) (int (length (Shards dso)) - 1) of
                      Inl p \<Rightarrow> (Some (Panicked p), h2)
                    | Inr shard \<Rightarrow>
                       (let inp = \<lparr>in_ShardId = ShardId shard,
                                   in_StreamArn = LatestStreamArn dto,
                                   in_ShardIteratorType = Some ShardIteratorTypeTrimHorizon\<rparr>;
                            h3 = h2 @ [GetShardIterator_call inp]
                        in case GetShardIterator w inp of
                             Inl err \<Rightarrow>
                               (Some (Returned (Some
                                  (errors_Wrap err ''failed get shard iterator''))), h3)
                           | Inr gsio \<Rightarrow>
                               poll_loop a w (LatestStreamArn dto) (ShardIterator gsio) h3
                                 (GetRecords w))))))"

section \<open>The vocabulary of the properties\<close>

subsection \<open>Populated variants\<close>

text \<open>
  The ten variant fields of an attribute value. A field is populated when it is not
  \<^verbatim>\<open>nil\<close>. \<open>check_order\<close> is the order in which \<^verbatim>\<open>NewAttributeValue\<close> tests them.
\<close>

datatype variant = VB | VBOOL | VBS | VN | VNS | VNULL | VS | VSS | VL | VM

fun populated_field :: "AttributeValue \<Rightarrow> variant \<Rightarrow> bool" where
  "populated_field a VB = (B a \<noteq> None)"
| "populated_field a VBOOL = (BOOL a \<noteq> None)"
| "populated_field a VBS = (BS a \<noteq> None)"
| "populated_field a VN = (N a \<noteq> None)"
| "populated_field a VNS = (NS a \<noteq> None)"
| "populated_field a VNULL = (NULL a \<noteq> None)"
| "populated_field a VS = (S a \<noteq> None)"
| "populated_field a VSS = (SS a \<noteq> None)"
| "populated_field a VL = (L a \<noteq> None)"
| "populated_field a VM = (M a \<noteq> None)"

definition check_order :: "variant list" where
  "check_order = [VB, VBOOL, VBS, VN, VNS, VNULL, VS, VSS, VL, VM]"

definition populated :: "AttributeValue \<Rightarrow> variant list" where
  "populated a = filter (populated_field a) check_order"

fun tag_name :: "variant \<Rightarrow> string" where
  "tag_name VB = ''B''"
| "tag_name VBOOL = ''BOOL''"
| "tag_name VBS = ''BS''"
| "tag_name VN = ''N''"
| "tag_name VNS = ''NS''"
| "tag_name VNULL = ''NULL''"
| "tag_name VS = ''S''"
| "tag_name VSS = ''SS''"
| "tag_name VL = ''L''"
| "tag_name VM = ''M''"

text \<open>
  The results of the members of a container, in order: the first panic, or all the
  encoded members. \<open>encode_entry\<close> encodes the value of one entry of a map.
\<close>

fun collect :: "(panic + 'a) list \<Rightarrow> panic + 'a list" where
  "collect [] = Inr []"
| "collect (Inl p # rs) = Inl p"
| "collect (Inr x # rs) = (case collect rs of Inl p \<Rightarrow> Inl p | Inr xs \<Rightarrow> Inr (x # xs))"

definition encode_entry :: "string \<times> AttributeValue option \<Rightarrow> panic + string \<times> iface" where
  "encode_entry kv =
     (case NewAttributeValue (snd kv) of Inl p \<Rightarrow> Inl p | Inr x \<Rightarrow> Inr (fst kv, x))"

text \<open>
  The structure that carries variant \<open>v\<close> of \<open>a\<close> and nothing else: the field itself for
  the eight flat variants, the encoded members for a list and for a map (or the panic of
  a member).
\<close>

fun single_variant :: "variant \<Rightarrow> AttributeValue \<Rightarrow> panic + iface" where
  "single_variant VB a = Inr (AttributeValueB (B a))"
| "single_variant VBOOL a = Inr (AttributeValueBOOL (BOOL a))"
| "single_variant VBS a = Inr (AttributeValueBS (BS a))"
| "single_variant VN a = Inr (AttributeValueN (N a))"
| "single_variant VNS a = Inr (AttributeValueNS (NS a))"
| "single_variant VNULL a = Inr (AttributeValueNULL (NULL a))"
| "single_variant VS a = Inr (AttributeValueS (S a))"
| "single_variant VSS a = Inr (AttributeValueSS (SS a))"
| "single_variant VL a =
     (case L a of
        None \<Rightarrow> Inr (AttributeValueL None)
      | Some xs \<Rightarrow>
         (case collect (map NewAttributeValue xs) of
            Inl p \<Rightarrow> Inl p
          | Inr ys \<Rightarrow> Inr (AttributeValueL (Some ys))))"
| "single_variant VM a =
     (case M a of
        None \<Rightarrow> Inr (AttributeValueM None)
      | Some kvs \<Rightarrow>
         (case collect (map encode_entry kvs) of
            Inl p \<Rightarrow> Inl p
          | Inr r \<Rightarrow> Inr (AttributeValueM (Some r))))"

text \<open>
  Reading an encoded value back: the attribute value whose only populated field is the
  one the structure carries, members read back the same way.
\<close>

fun decode :: "iface \<Rightarrow> AttributeValue"
  and decode_members :: "(string \<times> iface) list \<Rightarrow> (string \<times> AttributeValue option) list"
  and decode_elements :: "iface list \<Rightarrow> AttributeValue option list" where
  "decode nil = AttributeValue None None None None None None None None None None"
| "decode (AttributeValueB b) = AttributeValue b None None None None None None None None None"
| "decode (AttributeValueBOOL b) = AttributeValue None b None None None None None None None None"
| "decode (AttributeValueBS b) = AttributeValue None None b None None None None None None None"
| "decode (AttributeValueL l) =
     AttributeValue None None None (map_option decode_elements l) None None None None None None"
| "decode (AttributeValueM m) =
     AttributeValue None None None None (map_option decode_members m) None None None None None"
| "decode (AttributeValueN n) = AttributeValue None None None None None n None None None None"
| "decode (AttributeValueNS n) = AttributeValue None None None None None None n None None None"
| "decode (AttributeValueNULL n) = AttributeValue None None None None None None None n None None"
| "decode (AttributeValueS s) = AttributeValue None None None None None None None None s None"
| "decode (AttributeValueSS s) = AttributeValue None None None None None None None None None s"
| "decode_members [] = []"
| "decode_members ((k, v) # kvs) = (k, Some (decode v)) # decode_members kvs"
| "decode_elements [] = []"
| "decode_elements (v # vs) = Some (decode v) # decode_elements vs"

text \<open>No member pointer is \<^verbatim>\<open>nil\<close>, in the value and in every member below it.\<close>

fun allocated :: "AttributeValue \<Rightarrow> bool"
  and allocated_members :: "(string \<times> AttributeValue option) list \<Rightarrow> bool"
  and allocated_elements :: "AttributeValue option list \<Rightarrow> bool" where
  "allocated (AttributeValue b bool bs l m n ns null s ss) =
     ((case l of None \<Rightarrow> True | Some xs \<Rightarrow> allocated_elements xs)
      \<and> (case m of None \<Rightarrow> True | Some kvs \<Rightarrow> allocated_members kvs))"
| "allocated_members [] = True"
| "allocated_members ((k, None) # kvs) = False"
| "allocated_members ((k, Some v) # kvs) = (allocated v \<and> allocated_members kvs)"
| "allocated_elements [] = True"
| "allocated_elements (None # vs) = False"
| "allocated_elements (Some v # vs) = (allocated v \<and> allocated_elements vs)"

text \<open>
  No member pointer is \<^verbatim>\<open>nil\<close> and exactly one variant is populated, in the value and in
  every member below it.
\<close>

fun one_variant :: "AttributeValue \<Rightarrow> bool"
  and one_variant_members :: "(string \<times> AttributeValue option) list \<Rightarrow> bool"
  and one_variant_elements :: "AttributeValue option list \<Rightarrow> bool" where
  "one_variant (AttributeValue b bool bs l m n ns null s ss) =
     (length (populated (AttributeValue b bool bs l m n ns null s ss)) = 1
      \<and> (case l of None \<Rightarrow> True | Some xs \<Rightarrow> one_variant_elements xs)
      \<and> (case m of None \<Rightarrow> True | Some kvs \<Rightarrow> one_variant_members kvs))"
| "one_variant_members [] = True"
| "one_variant_members ((k, None) # kvs) = False"
| "one_variant_members ((k, Some v) # kvs) = (one_variant v \<and> one_variant_members kvs)"
| "one_variant_elements [] = True"
| "one_variant_elements (None # vs) = False"
| "one_variant_elements (Some v # vs) = (one_variant v \<and> one_variant_elements vs)"

subsection \<open>Envelopes\<close>

text \<open>The \<^verbatim>\<open>Dynamodb\<close> object of the one record of an envelope.\<close>

fun envelope_dynamodb :: "json \<Rightarrow> json option" where
  "envelope_dynamodb (JObject kvs) =
     (case map_of kvs ''Records'' of
        Some (JArray [rj]) \<Rightarrow> member ''Dynamodb'' rj
      | _ \<Rightarrow> None)"
| "envelope_dynamodb _ = None"

subsection \<open>Traces\<close>

text \<open>The inputs of the calls to \<^verbatim>\<open>GetShardIterator\<close> and the tokens of the calls to
  \<^verbatim>\<open>GetRecords\<close> in a trace.\<close>

fun iterator_requests :: "event list \<Rightarrow> GetShardIteratorInput list" where
  "iterator_requests [] = []"
| "iterator_requests (GetShardIterator_call i # es) = i # iterator_requests es"
| "iterator_requests (_ # es) = iterator_requests es"

fun polls :: "event list \<Rightarrow> string option list" where
  "polls [] = []"
| "polls (GetRecords_call t # es) = t # polls es"
| "polls (_ # es) = polls es"

text \<open>
  The outcome an event forces when it fails after the history \<open>h\<close>: a record that
  \<^verbatim>\<open>NewRecord\<close> panics on, a write to the \<^verbatim>\<open>nil\<close> writer of a failed pipe or to a pipe
  that does not hold the document, a sink process for which \<^verbatim>\<open>CombinedOutput\<close> returns an
  error. A trace is \<open>quiet\<close> when none of its events fails.
\<close>

fun ends_run :: "world \<Rightarrow> event list \<Rightarrow> event \<Rightarrow> outcome option" where
  "ends_run w h (NewRecord_call r) =
     (case NewRecord r of Inl p \<Rightarrow> Some (Panicked p) | Inr nr \<Rightarrow> None)"
| "ends_run w h (Stdin_write rj) =
     (case StdinPipe w h of
        Some err \<Rightarrow> Some (Panicked NilPointerDereference)
      | None \<Rightarrow> if \<not> pipe_holds w rj then Some Blocked else None)"
| "ends_run w h (Command_run c as rj) =
     (case CombinedOutput w h c as rj of
        Inl err \<Rightarrow> Some (Returned (Some (errors_Wrap err ''failed cmd'')))
      | Inr out \<Rightarrow> None)"
| "ends_run w h _ = None"

fun quiet_from :: "world \<Rightarrow> event list \<Rightarrow> event list \<Rightarrow> bool" where
  "quiet_from w h [] = True"
| "quiet_from w h (e # es) = (ends_run w h e = None \<and> quiet_from w (h @ [e]) es)"

definition quiet :: "world \<Rightarrow> event list \<Rightarrow> bool" where
  "quiet w tr = quiet_from w [] tr"

section \<open>Properties\<close>

subsection \<open>The attribute value encoder\<close>

lemma collect_map_Inr: "collect (map Inr ys) = Inr ys"
  by (induction ys) simp_all

lemma collect_Inr: "collect rs = Inr ys \<longleftrightarrow> rs = map Inr ys"
proof
  show "collect rs = Inr ys \<Longrightarrow> rs = map Inr ys"
    by (induction rs arbitrary: ys rule: collect.induct) (auto split: sum.splits)
  show "rs = map Inr ys \<Longrightarrow> collect rs = Inr ys"
    by (simp add: collect_map_Inr)
qed

lemma collect_Inl: "collect rs = Inl p \<Longrightarrow> Inl p \<in> set rs"
  by (induction rs rule: collect.induct) (auto split: sum.splits)

lemma NewAttributeValueList_collect:
  "NewAttributeValueList xs = collect (map NewAttributeValue xs)"
  by (induction xs) (auto split: sum.splits)

lemma NewAttributeValueMap_collect:
  "NewAttributeValueMap kvs = collect (map encode_entry kvs)"
  by (induction kvs) (auto simp: encode_entry_def split: sum.splits)

text \<open>The only panic of the encoder is the dereference of a \<^verbatim>\<open>nil\<close> member.\<close>

lemma encoder_panic:
  "NewAttributeValue p = Inl q \<Longrightarrow> q = NilPointerDereference"
  "NewAttributeValueMap kvs = Inl q \<Longrightarrow> q = NilPointerDereference"
  "NewAttributeValueList xs = Inl q \<Longrightarrow> q = NilPointerDereference"
  by (induction p and kvs and xs
        rule: NewAttributeValue_NewAttributeValueMap_NewAttributeValueList.induct)
     (auto split: if_splits option.splits sum.splits)

lemma nil_element_panics:
  "None \<in> set xs \<Longrightarrow> NewAttributeValueList xs = Inl NilPointerDereference"
proof (induction xs)
  case Nil
  then show ?case by simp
next
  case (Cons x xs)
  show ?case
  proof (cases "NewAttributeValue x")
    case (Inl q)
    then show ?thesis using encoder_panic(1) by simp
  next
    case (Inr y)
    then have "x \<noteq> None" by (cases x) simp_all
    then show ?thesis using Cons Inr by auto
  qed
qed

lemma nil_member_panics:
  "(k, None) \<in> set kvs \<Longrightarrow> NewAttributeValueMap kvs = Inl NilPointerDereference"
proof (induction kvs)
  case Nil
  then show ?case by simp
next
  case (Cons kv kvs)
  obtain k' v where kv: "kv = (k', v)" by (cases kv)
  show ?case
  proof (cases "NewAttributeValue v")
    case (Inl q)
    then show ?thesis using encoder_panic(1) kv by simp
  next
    case (Inr y)
    then have "v \<noteq> None" by (cases v) simp_all
    then show ?thesis using Cons Inr kv by auto
  qed
qed

text \<open>The chain of checks returns the structure of the first populated variant.\<close>

lemma first_populated:
  "populated a = v # vs \<Longrightarrow> NewAttributeValue (Some a) = single_variant v a"
  by (cases a)
     (simp add: populated_def check_order_def NewAttributeValueList_collect
        NewAttributeValueMap_collect split: if_splits option.splits)

lemma none_populated: "populated a = [] \<Longrightarrow> NewAttributeValue (Some a) = Inr nil"
  by (cases a) (simp add: populated_def check_order_def split: if_splits)

lemma single_variant_names:
  "single_variant v a = Inr x \<Longrightarrow> member_names (json_iface x) = [tag_name v]"
  by (cases v) (auto split: option.splits sum.splits)

lemma populated_L: "L a = Some xs \<Longrightarrow> populated a = [v] \<Longrightarrow> v = VL"
  by (cases a) (simp add: populated_def check_order_def split: if_splits)

lemma populated_M: "M a = Some kvs \<Longrightarrow> populated a = [v] \<Longrightarrow> v = VM"
  by (cases a) (simp add: populated_def check_order_def split: if_splits)

text \<open>Without a \<^verbatim>\<open>nil\<close> member pointer the encoder does not panic.\<close>

lemma allocated_encodes:
  "allocated a \<Longrightarrow> \<exists>x. NewAttributeValue (Some a) = Inr x"
  "allocated_members kvs \<Longrightarrow> \<exists>r. NewAttributeValueMap kvs = Inr r"
  "allocated_elements xs \<Longrightarrow> \<exists>r. NewAttributeValueList xs = Inr r"
proof (induction a and kvs and xs
    rule: allocated_allocated_members_allocated_elements.induct)
  case (1 b bool bs l m n ns null s ss)
  then show ?case
    by (cases l; cases m) auto
qed auto

text \<open>
  Reading back what the encoder produced gives the value itself, whenever exactly one
  variant is populated at every level: nothing is lost or added at any depth.
\<close>

lemma roundtrip:
  "one_variant a \<Longrightarrow> \<exists>x. NewAttributeValue (Some a) = Inr x \<and> decode x = a"
  "one_variant_members kvs \<Longrightarrow> \<exists>r. NewAttributeValueMap kvs = Inr r \<and> decode_members r = kvs"
  "one_variant_elements xs \<Longrightarrow> \<exists>r. NewAttributeValueList xs = Inr r \<and> decode_elements r = xs"
proof (induction a and kvs and xs
    rule: one_variant_one_variant_members_one_variant_elements.induct)
  case (1 b bool bs l m n ns null s ss)
  then show ?case
    by (cases l; cases m) (auto simp: populated_def check_order_def split: if_splits)
qed auto

text \<open>
  C1. For an attribute value with exactly one populated variant \<open>v\<close>,
  \<^verbatim>\<open>NewAttributeValue\<close> returns the structure that carries variant \<open>v\<close> and nothing else;
  its serialized form is an object with the single member named after \<open>v\<close>. For a list
  and for a map the members are encoded by \<^verbatim>\<open>NewAttributeValue\<close> itself, so the same
  holds for each member at every depth: when exactly one variant is populated at every
  level, reading the result back gives the input. The encoder returns a structure
  whenever no member pointer is \<^verbatim>\<open>nil\<close>; a \<^verbatim>\<open>nil\<close> member makes the call panic.
\<close>

theorem NewAttributeValue_exactly_one:
  assumes "populated a = [v]"
  shows "NewAttributeValue (Some a) = single_variant v a
    \<and> (\<forall>x. NewAttributeValue (Some a) = Inr x
          \<longrightarrow> member_names (json_iface x) = [tag_name v])
    \<and> (\<forall>xs. L a = Some xs \<longrightarrow>
          NewAttributeValue (Some a)
            = (case collect (map NewAttributeValue xs) of
                 Inl p \<Rightarrow> Inl p
               | Inr ys \<Rightarrow> Inr (AttributeValueL (Some ys))))
    \<and> (\<forall>kvs. M a = Some kvs \<longrightarrow>
          NewAttributeValue (Some a)
            = (case collect (map encode_entry kvs) of
                 Inl p \<Rightarrow> Inl p
               | Inr r \<Rightarrow> Inr (AttributeValueM (Some r))))
    \<and> (allocated a \<longrightarrow> (\<exists>x. NewAttributeValue (Some a) = Inr x))
    \<and> (one_variant a \<longrightarrow> (\<exists>x. NewAttributeValue (Some a) = Inr x \<and> decode x = a))"
proof -
  have enc: "NewAttributeValue (Some a) = single_variant v a"
    using assms by (rule first_populated)
  have names: "member_names (json_iface x) = [tag_name v]"
    if "NewAttributeValue (Some a) = Inr x" for x
    using that enc single_variant_names by simp
  have lst: "NewAttributeValue (Some a)
      = (case collect (map NewAttributeValue xs) of
           Inl p \<Rightarrow> Inl p
         | Inr ys \<Rightarrow> Inr (AttributeValueL (Some ys)))"
    if "L a = Some xs" for xs
    using populated_L [OF that assms] enc that by simp
  have mp: "NewAttributeValue (Some a)
      = (case collect (map encode_entry kvs) of
           Inl p \<Rightarrow> Inl p
         | Inr r \<Rightarrow> Inr (AttributeValueM (Some r)))"
    if "M a = Some kvs" for kvs
    using populated_M [OF that assms] enc that by simp
  show ?thesis
    using enc names lst mp allocated_encodes(1) roundtrip(1) by blast
qed

text \<open>
  The witness is a map holding a list holding a map holding a number; the theorem is used
  at the map and at the list inside it.
\<close>

theorem NewAttributeValue_exactly_one_witness:
  "populated (AttributeValue None None None None
       (Some [(''a'', Some (AttributeValue None None None
          (Some [Some (AttributeValue None None None None
             (Some [(''n'', Some (AttributeValue None None None None None (Some ''1'')
                             None None None None))])
             None None None None None)])
          None None None None None None))])
       None None None None None) = [VM]
   \<and> one_variant (AttributeValue None None None None
       (Some [(''a'', Some (AttributeValue None None None
          (Some [Some (AttributeValue None None None None
             (Some [(''n'', Some (AttributeValue None None None None None (Some ''1'')
                             None None None None))])
             None None None None None)])
          None None None None None None))])
       None None None None None)
   \<and> NewAttributeValue (Some (AttributeValue None None None None
       (Some [(''a'', Some (AttributeValue None None None
          (Some [Some (AttributeValue None None None None
             (Some [(''n'', Some (AttributeValue None None None None None (Some ''1'')
                             None None None None))])
             None None None None None)])
          None None None None None None))])
       None None None None None))
     = Inr (AttributeValueM (Some [(''a'', AttributeValueL (Some [AttributeValueM (Some
          [(''n'', AttributeValueN (Some ''1''))])]))]))
   \<and> populated (AttributeValue None None None
          (Some [Some (AttributeValue None None None None
             (Some [(''n'', Some (AttributeValue None None None None None (Some ''1'')
                             None None None None))])
             None None None None None)])
          None None None None None None) = [VL]
   \<and> NewAttributeValue (Some (AttributeValue None None None
          (Some [Some (AttributeValue None None None None
             (Some [(''n'', Some (AttributeValue None None None None None (Some ''1'')
                             None None None None))])
             None None None None None)])
          None None None None None None))
     = Inr (AttributeValueL (Some [AttributeValueM (Some [(''n'', AttributeValueN (Some ''1''))])]))"
  using NewAttributeValue_exactly_one [of "AttributeValue None None None None
       (Some [(''a'', Some (AttributeValue None None None
          (Some [Some (AttributeValue None None None None
             (Some [(''n'', Some (AttributeValue None None None None None (Some ''1'')
                             None None None None))])
             None None None None None)])
          None None None None None None))])
       None None None None None" VM]
    NewAttributeValue_exactly_one [of "AttributeValue None None None
          (Some [Some (AttributeValue None None None None
             (Some [(''n'', Some (AttributeValue None None None None None (Some ''1'')
                             None None None None))])
             None None None None None)])
          None None None None None None" VL]
  by (simp add: populated_def check_order_def)

text \<open>
  C10. When more than one variant is populated, \<^verbatim>\<open>NewAttributeValue\<close> returns the
  structure of the first populated variant in the order B, BOOL, BS, N, NS, NULL, S, SS,
  L, M, and its serialized form has that single member: the other populated fields are
  dropped without an error. When the first populated variant is not a list or a map, the
  dropped list and map are not even visited, so that a structure is returned whatever
  they hold.
\<close>

theorem NewAttributeValue_first_in_check_order:
  assumes "1 < length (populated a)"
  shows "populated a
      = filter (populated_field a) [VB, VBOOL, VBS, VN, VNS, VNULL, VS, VSS, VL, VM]
    \<and> NewAttributeValue (Some a) = single_variant (hd (populated a)) a
    \<and> (\<forall>x. NewAttributeValue (Some a) = Inr x
          \<longrightarrow> member_names (json_iface x) = [tag_name (hd (populated a))])
    \<and> (hd (populated a) \<noteq> VL \<and> hd (populated a) \<noteq> VM
          \<longrightarrow> (\<exists>x. NewAttributeValue (Some a) = Inr x))
    \<and> (allocated a \<longrightarrow> (\<exists>x. NewAttributeValue (Some a) = Inr x))"
proof (intro conjI allI impI)
  obtain v vs where p: "populated a = v # vs"
    using assms by (cases "populated a") auto
  then have v: "hd (populated a) = v"
    by simp
  show "populated a
      = filter (populated_field a) [VB, VBOOL, VBS, VN, VNS, VNULL, VS, VSS, VL, VM]"
    by (simp only: populated_def check_order_def)
  show enc: "NewAttributeValue (Some a) = single_variant (hd (populated a)) a"
    unfolding v using p by (rule first_populated)
  show "member_names (json_iface x) = [tag_name (hd (populated a))]"
    if "NewAttributeValue (Some a) = Inr x" for x
    using that enc single_variant_names by simp
  show "\<exists>x. NewAttributeValue (Some a) = Inr x"
    if "hd (populated a) \<noteq> VL \<and> hd (populated a) \<noteq> VM"
    using that unfolding enc by (cases "hd (populated a)") simp_all
  show "\<exists>x. NewAttributeValue (Some a) = Inr x" if "allocated a"
    using that by (rule allocated_encodes(1))
qed

text \<open>
  The witness has a string, a string set, a list with a \<^verbatim>\<open>nil\<close> member and a map: the
  string wins and the list is not visited.
\<close>

theorem NewAttributeValue_first_in_check_order_witness:
  "1 < length (populated (AttributeValue None None None (Some [None]) (Some [])
       None None None (Some ''x'') (Some [Some ''y''])))
   \<and> populated (AttributeValue None None None (Some [None]) (Some [])
       None None None (Some ''x'') (Some [Some ''y''])) = [VS, VSS, VL, VM]
   \<and> NewAttributeValue (Some (AttributeValue None None None (Some [None]) (Some [])
       None None None (Some ''x'') (Some [Some ''y'']))) = Inr (AttributeValueS (Some ''x''))
   \<and> json_iface (AttributeValueS (Some ''x'')) = JObject [(''S'', JString ''x'')]"
  using NewAttributeValue_first_in_check_order [of
      "AttributeValue None None None (Some [None]) (Some [])
         None None None (Some ''x'') (Some [Some ''y''])"]
  by (simp add: populated_def check_order_def json_string_def)

subsection \<open>Records and envelopes\<close>

lemma NewAttributeValueMap_keys:
  "NewAttributeValueMap kvs = Inr r \<Longrightarrow> map fst r = map fst kvs"
  by (induction kvs arbitrary: r) (auto split: sum.splits)

lemma NewAttributeValueMap_empty:
  "NewAttributeValueMap kvs = Inr r \<Longrightarrow> r = [] \<longleftrightarrow> kvs = []"
  using NewAttributeValueMap_keys [of kvs r] by (cases kvs; cases r) auto

lemma NewAttributeValueMap_entry:
  "NewAttributeValueMap kvs = Inr r \<Longrightarrow> (k, p) \<in> set kvs \<Longrightarrow> NewAttributeValue p = Inr x
     \<Longrightarrow> (k, x) \<in> set r"
  by (induction kvs arbitrary: r) (auto split: sum.splits)

lemma json_members_entry:
  "(k, v) \<in> set kvs \<Longrightarrow> (k, json_iface v) \<in> set (json_members kvs)"
  by (induction kvs) auto

text \<open>\<^verbatim>\<open>NewStreamRecord\<close> returns a record exactly when the timestamp is present and the
  three mappings encode; its only panic is the nil dereference.\<close>

lemma NewStreamRecord_total:
  "(\<exists>d. NewStreamRecord (Some sr) = Inr d) \<longleftrightarrow>
     raw_ApproximateCreationDateTime sr \<noteq> None
     \<and> (\<exists>ks. NewAttributeValueMap (range_entries (raw_Keys sr)) = Inr ks)
     \<and> (\<exists>ns. NewAttributeValueMap (range_entries (raw_NewImage sr)) = Inr ns)
     \<and> (\<exists>os. NewAttributeValueMap (range_entries (raw_OldImage sr)) = Inr os)"
  by (auto simp: NewStreamRecord_def split: option.splits sum.splits)

lemma NewStreamRecord_panic: "NewStreamRecord p = Inl q \<Longrightarrow> q = NilPointerDereference"
  by (auto simp: NewStreamRecord_def split: option.splits sum.splits dest: encoder_panic(2))

lemma NewStreamRecord_StreamViewType:
  "NewStreamRecord p = Inr d \<Longrightarrow> StreamViewType d = None"
  by (auto simp: NewStreamRecord_def split: option.splits sum.splits)

text \<open>
  The transformed record: every field of the raw record other than the view type is
  carried over, the timestamp as its seconds, and the stream identifier is put into
  \<^verbatim>\<open>EventSourceArn\<close>.
\<close>

lemma transform_succeeds:
  assumes "raw_Dynamodb r = Some sr" and "raw_ApproximateCreationDateTime sr = Some t"
    and "NewAttributeValueMap (range_entries (raw_Keys sr)) = Inr keys"
    and "NewAttributeValueMap (range_entries (raw_NewImage sr)) = Inr newImage"
    and "NewAttributeValueMap (range_entries (raw_OldImage sr)) = Inr oldImage"
  shows "transform r streamId = Inr \<lparr>Records = [\<lparr>
      AwsRegion = raw_AwsRegion r,
      Dynamodb = Some \<lparr>
        ApproximateCreationDateTime = Some (Unix t),
        Keys = Some keys,
        NewImage = Some newImage,
        OldImage = Some oldImage,
        SequenceNumber = raw_SequenceNumber sr,
        SizeBytes = raw_SizeBytes sr,
        StreamViewType = None\<rparr>,
      EventID = raw_EventID r,
      EventName = raw_EventName r,
      EventSource = raw_EventSource r,
      EventVersion = raw_EventVersion r,
      EventSourceArn = streamId,
      UserIdentity = raw_UserIdentity r\<rparr>]\<rparr>"
  using assms by (simp add: transform_def NewRecord_def NewStreamRecord_def)

lemma transform_result:
  assumes "raw_Dynamodb r = Some sr" and "transform r streamId = Inr e"
  shows "\<exists>t keys newImage oldImage.
      raw_ApproximateCreationDateTime sr = Some t
    \<and> NewAttributeValueMap (range_entries (raw_Keys sr)) = Inr keys
    \<and> NewAttributeValueMap (range_entries (raw_NewImage sr)) = Inr newImage
    \<and> NewAttributeValueMap (range_entries (raw_OldImage sr)) = Inr oldImage"
  using assms
  by (auto simp: transform_def NewRecord_def NewStreamRecord_def
      split: option.splits sum.splits)

lemma transform_panic: "transform r streamId = Inl q \<Longrightarrow> q = NilPointerDereference"
  by (auto simp: transform_def NewRecord_def split: sum.splits dest: NewStreamRecord_panic)

lemma transform_without_timestamp:
  "raw_Dynamodb r = Some sr \<Longrightarrow> raw_ApproximateCreationDateTime sr = None
     \<Longrightarrow> transform r streamId = Inl NilPointerDereference"
  by (simp add: transform_def NewRecord_def NewStreamRecord_def)

text \<open>A \<^verbatim>\<open>nil\<close> value in the key mapping or in an image makes the transformation panic.\<close>

lemma transform_nil_member:
  assumes "raw_Dynamodb r = Some sr"
    and "(k, None) \<in> set (range_entries (raw_Keys sr))
       \<or> (k, None) \<in> set (range_entries (raw_NewImage sr))
       \<or> (k, None) \<in> set (range_entries (raw_OldImage sr))"
  shows "transform r streamId = Inl NilPointerDereference"
proof (cases "transform r streamId")
  case (Inl q)
  then show ?thesis using transform_panic by simp
next
  case (Inr e)
  from transform_result [OF assms(1) Inr] assms(2) nil_member_panics
  show ?thesis by fastforce
qed

text \<open>
  An allocated attribute value without a populated variant does not make the encoder
  fail, wherever it sits: it is encoded as \<^verbatim>\<open>nil\<close>, which is serialized as \<^verbatim>\<open>null\<close>, and
  the entry that holds it is kept.
\<close>

lemma no_variant_entry:
  assumes "populated a = []" and "(k, Some a) \<in> set kvs" and "NewAttributeValueMap kvs = Inr r"
  shows "(k, nil) \<in> set r \<and> (k, JNull) \<in> set (json_members r)"
proof -
  have "(k, nil) \<in> set r"
    using NewAttributeValueMap_entry [OF assms(3,2)] none_populated [OF assms(1)] by simp
  then show ?thesis
    using json_members_entry by fastforce
qed

lemma member_names_StreamRecord:
  "member_names (json_StreamRecord d) =
     [''ApproximateCreationDateTime'']
     @ (if range_entries (Keys d) = [] then [] else [''Keys''])
     @ (if range_entries (NewImage d) = [] then [] else [''NewImage''])
     @ (if range_entries (OldImage d) = [] then [] else [''OldImage''])
     @ [''SequenceNumber'', ''SizeBytes'', ''StreamViewType'']"
  by (simp add: json_StreamRecord_def omitempty_map_def)

lemma envelope_dynamodb_single:
  "envelope_dynamodb (json_DynamoDBEvent \<lparr>Records = [nr]\<rparr>)
     = Some (case Dynamodb nr of None \<Rightarrow> JNull | Some d \<Rightarrow> json_StreamRecord d)"
  by (simp add: json_DynamoDBEvent_def json_Record_def)


text \<open>
  C2. The transformation of a record whose view type is \<^verbatim>\<open>KEYS_ONLY\<close>: every other field
  arrives in the envelope and \<^verbatim>\<open>EventSourceArn\<close> is the injected stream identifier, but
  \<^verbatim>\<open>StreamViewType\<close> is \<^verbatim>\<open>nil\<close> in the transformed record, where the claim has the view
  type carried over.
\<close>

theorem transform_drops_StreamViewType:
  "transform
     \<lparr>raw_AwsRegion = Some ''us-east-1'',
      raw_Dynamodb = Some \<lparr>raw_ApproximateCreationDateTime = Some (Time 1234567890 500),
        raw_Keys = Some [(''id'', Some (AttributeValue None None None None None None None None
                                    (Some ''k1'') None))],
        raw_NewImage = None, raw_OldImage = None, raw_SequenceNumber = Some ''111'',
        raw_SizeBytes = Some 26, raw_StreamViewType = Some ''KEYS_ONLY''\<rparr>,
      raw_EventID = Some ''e1'', raw_EventName = Some ''INSERT'',
      raw_EventSource = Some ''aws:dynamodb'', raw_EventVersion = Some ''1.1'',
      raw_UserIdentity = None\<rparr> (Some ''arn:stream'')
   = Inr \<lparr>Records = [\<lparr>
       AwsRegion = Some ''us-east-1'',
       Dynamodb = Some \<lparr>
         ApproximateCreationDateTime = Some 1234567890,
         Keys = Some [(''id'', AttributeValueS (Some ''k1''))],
         NewImage = Some [],
         OldImage = Some [],
         SequenceNumber = Some ''111'',
         SizeBytes = Some 26,
         StreamViewType = None\<rparr>,
       EventID = Some ''e1'',
       EventName = Some ''INSERT'',
       EventSource = Some ''aws:dynamodb'',
       EventVersion = Some ''1.1'',
       EventSourceArn = Some ''arn:stream'',
       UserIdentity = None\<rparr>]\<rparr>"
  by (simp add: transform_def NewRecord_def NewStreamRecord_def range_entries_def Unix_def)

text \<open>
  C3, as stated, fails for a \<^verbatim>\<open>KEYS_ONLY\<close> record without images whose key mapping is
  empty: the \<^verbatim>\<open>Keys\<close> field is tagged \<^verbatim>\<open>omitempty\<close> like the two images, so the
  \<^verbatim>\<open>Dynamodb\<close> object of the envelope has no \<^verbatim>\<open>Keys\<close> member.
\<close>

theorem keys_only_without_Keys_counterexample:
  "transform
     \<lparr>raw_AwsRegion = Some ''us-east-1'',
      raw_Dynamodb = Some \<lparr>raw_ApproximateCreationDateTime = Some (Time 1234567890 0),
        raw_Keys = Some [], raw_NewImage = None, raw_OldImage = None,
        raw_SequenceNumber = Some ''111'', raw_SizeBytes = Some 26,
        raw_StreamViewType = Some ''KEYS_ONLY''\<rparr>,
      raw_EventID = Some ''e1'', raw_EventName = Some ''REMOVE'',
      raw_EventSource = Some ''aws:dynamodb'', raw_EventVersion = Some ''1.1'',
      raw_UserIdentity = None\<rparr> (Some ''arn:stream'')
   = Inr \<lparr>Records = [\<lparr>
       AwsRegion = Some ''us-east-1'',
       Dynamodb = Some \<lparr>
         ApproximateCreationDateTime = Some 1234567890,
         Keys = Some [], NewImage = Some [], OldImage = Some [],
         SequenceNumber = Some ''111'', SizeBytes = Some 26, StreamViewType = None\<rparr>,
       EventID = Some ''e1'', EventName = Some ''REMOVE'',
       EventSource = Some ''aws:dynamodb'', EventVersion = Some ''1.1'',
       EventSourceArn = Some ''arn:stream'', UserIdentity = None\<rparr>]\<rparr>
   \<and> envelope_dynamodb (json_DynamoDBEvent \<lparr>Records = [\<lparr>
       AwsRegion = Some ''us-east-1'',
       Dynamodb = Some \<lparr>
         ApproximateCreationDateTime = Some 1234567890,
         Keys = Some [], NewImage = Some [], OldImage = Some [],
         SequenceNumber = Some ''111'', SizeBytes = Some 26, StreamViewType = None\<rparr>,
       EventID = Some ''e1'', EventName = Some ''REMOVE'',
       EventSource = Some ''aws:dynamodb'', EventVersion = Some ''1.1'',
       EventSourceArn = Some ''arn:stream'', UserIdentity = None\<rparr>]\<rparr>)
     = Some (JObject
         [(''ApproximateCreationDateTime'', JNumber 1234567890),
          (''SequenceNumber'', JString ''111''),
          (''SizeBytes'', JNumber 26),
          (''StreamViewType'', JNull)])
   \<and> ''Keys'' \<notin> set (member_names (JObject
         [(''ApproximateCreationDateTime'', JNumber 1234567890),
          (''SequenceNumber'', JString ''111''),
          (''SizeBytes'', JNumber 26),
          (''StreamViewType'', JNull)]))"
  by (simp add: transform_def NewRecord_def NewStreamRecord_def range_entries_def Unix_def
      json_DynamoDBEvent_def json_Record_def json_StreamRecord_def omitempty_map_def
      json_string_def json_int64_def)

text \<open>
  C3, amended. For a \<^verbatim>\<open>KEYS_ONLY\<close> record that carries a creation timestamp and no before-
  or after-image, the transformation yields an envelope whenever no member pointer
  among the keys is \<^verbatim>\<open>nil\<close>, and in every envelope it yields the \<^verbatim>\<open>Dynamodb\<close> object has no
  \<^verbatim>\<open>NewImage\<close> and no \<^verbatim>\<open>OldImage\<close> member (they are absent, not \<^verbatim>\<open>null\<close>), and has a
  \<^verbatim>\<open>Keys\<close> member exactly when the key mapping of the record is not empty.
\<close>

theorem keys_only_envelope:
  assumes "raw_Dynamodb r = Some sr"
    and "raw_StreamViewType sr = Some ''KEYS_ONLY''"
    and "raw_ApproximateCreationDateTime sr = Some t"
    and "range_entries (raw_NewImage sr) = []"
    and "range_entries (raw_OldImage sr) = []"
  shows "(allocated_members (range_entries (raw_Keys sr))
          \<longrightarrow> (\<exists>e. transform r streamId = Inr e))
    \<and> (\<forall>e. transform r streamId = Inr e \<longrightarrow>
          (\<exists>dj. envelope_dynamodb (json_DynamoDBEvent e) = Some dj
             \<and> ''NewImage'' \<notin> set (member_names dj)
             \<and> ''OldImage'' \<notin> set (member_names dj)
             \<and> member ''NewImage'' dj = None
             \<and> member ''OldImage'' dj = None
             \<and> (''Keys'' \<in> set (member_names dj) \<longleftrightarrow> range_entries (raw_Keys sr) \<noteq> [])))"
proof (intro conjI allI impI)
  have images: "NewAttributeValueMap (range_entries (raw_NewImage sr)) = Inr []"
    "NewAttributeValueMap (range_entries (raw_OldImage sr)) = Inr []"
    using assms(4,5) by simp_all
  show "\<exists>e. transform r streamId = Inr e"
    if alloc: "allocated_members (range_entries (raw_Keys sr))"
  proof -
    obtain keys where "NewAttributeValueMap (range_entries (raw_Keys sr)) = Inr keys"
      using allocated_encodes(2) [OF alloc] by blast
    then show ?thesis
      using transform_succeeds [OF assms(1,3) _ images, of keys streamId] by blast
  qed
  show "\<exists>dj. envelope_dynamodb (json_DynamoDBEvent e) = Some dj
      \<and> ''NewImage'' \<notin> set (member_names dj)
      \<and> ''OldImage'' \<notin> set (member_names dj)
      \<and> member ''NewImage'' dj = None
      \<and> member ''OldImage'' dj = None
      \<and> (''Keys'' \<in> set (member_names dj) \<longleftrightarrow> range_entries (raw_Keys sr) \<noteq> [])"
    if e: "transform r streamId = Inr e" for e
  proof -
    obtain keys where keys: "NewAttributeValueMap (range_entries (raw_Keys sr)) = Inr keys"
      using transform_result [OF assms(1) e] by blast
    let ?d = "\<lparr>ApproximateCreationDateTime = Some (Unix t),
        Keys = Some keys, NewImage = Some [], OldImage = Some [],
        SequenceNumber = raw_SequenceNumber sr,
        SizeBytes = raw_SizeBytes sr,
        StreamViewType = None\<rparr>"
    have empty: "keys = [] \<longleftrightarrow> range_entries (raw_Keys sr) = []"
      using NewAttributeValueMap_empty [OF keys] .
    have names: "member_names (json_StreamRecord ?d) =
        [''ApproximateCreationDateTime'']
        @ (if range_entries (raw_Keys sr) = [] then [] else [''Keys''])
        @ [''SequenceNumber'', ''SizeBytes'', ''StreamViewType'']"
      using empty by (simp add: member_names_StreamRecord range_entries_def)
    have absent: "member ''NewImage'' (json_StreamRecord ?d) = None"
      "member ''OldImage'' (json_StreamRecord ?d) = None"
      by (simp_all add: json_StreamRecord_def omitempty_map_def range_entries_def)
    show ?thesis
      using transform_succeeds [OF assms(1,3) keys images, of streamId] e names absent
      by (simp add: envelope_dynamodb_single)
  qed
qed

theorem keys_only_envelope_witness:
  "range_entries (None :: (string \<times> AttributeValue option) list option) = []
   \<and> allocated_members [(''id'', Some (AttributeValue None None None None None None None None
                                    (Some ''k1'') None))]
   \<and> transform
     \<lparr>raw_AwsRegion = Some ''us-east-1'',
      raw_Dynamodb = Some \<lparr>raw_ApproximateCreationDateTime = Some (Time 1234567890 0),
        raw_Keys = Some [(''id'', Some (AttributeValue None None None None None None None None
                                    (Some ''k1'') None))],
        raw_NewImage = None, raw_OldImage = None,
        raw_SequenceNumber = Some ''111'', raw_SizeBytes = Some 26,
        raw_StreamViewType = Some ''KEYS_ONLY''\<rparr>,
      raw_EventID = Some ''e1'', raw_EventName = Some ''REMOVE'',
      raw_EventSource = Some ''aws:dynamodb'', raw_EventVersion = Some ''1.1'',
      raw_UserIdentity = None\<rparr> (Some ''arn:stream'')
   = Inr \<lparr>Records = [\<lparr>
       AwsRegion = Some ''us-east-1'',
       Dynamodb = Some \<lparr>
         ApproximateCreationDateTime = Some 1234567890,
         Keys = Some [(''id'', AttributeValueS (Some ''k1''))],
         NewImage = Some [], OldImage = Some [],
         SequenceNumber = Some ''111'', SizeBytes = Some 26, StreamViewType = None\<rparr>,
       EventID = Some ''e1'', EventName = Some ''REMOVE'',
       EventSource = Some ''aws:dynamodb'', EventVersion = Some ''1.1'',
       EventSourceArn = Some ''arn:stream'', UserIdentity = None\<rparr>]\<rparr>
   \<and> envelope_dynamodb (json_DynamoDBEvent \<lparr>Records = [\<lparr>
       AwsRegion = Some ''us-east-1'',
       Dynamodb = Some \<lparr>
         ApproximateCreationDateTime = Some 1234567890,
         Keys = Some [(''id'', AttributeValueS (Some ''k1''))],
         NewImage = Some [], OldImage = Some [],
         SequenceNumber = Some ''111'', SizeBytes = Some 26, StreamViewType = None\<rparr>,
       EventID = Some ''e1'', EventName = Some ''REMOVE'',
       EventSource = Some ''aws:dynamodb'', EventVersion = Some ''1.1'',
       EventSourceArn = Some ''arn:stream'', UserIdentity = None\<rparr>]\<rparr>)
     = Some (JObject
         [(''ApproximateCreationDateTime'', JNumber 1234567890),
          (''Keys'', JObject [(''id'', JObject [(''S'', JString ''k1'')])]),
          (''SequenceNumber'', JString ''111''),
          (''SizeBytes'', JNumber 26),
          (''StreamViewType'', JNull)])"
  using keys_only_envelope [of
      "\<lparr>raw_AwsRegion = Some ''us-east-1'',
         raw_Dynamodb = Some \<lparr>raw_ApproximateCreationDateTime = Some (Time 1234567890 0),
           raw_Keys = Some [(''id'', Some (AttributeValue None None None None None None None
                                       None (Some ''k1'') None))],
           raw_NewImage = None, raw_OldImage = None,
           raw_SequenceNumber = Some ''111'', raw_SizeBytes = Some 26,
           raw_StreamViewType = Some ''KEYS_ONLY''\<rparr>,
         raw_EventID = Some ''e1'', raw_EventName = Some ''REMOVE'',
         raw_EventSource = Some ''aws:dynamodb'', raw_EventVersion = Some ''1.1'',
         raw_UserIdentity = None\<rparr>"
      "\<lparr>raw_ApproximateCreationDateTime = Some (Time 1234567890 0),
           raw_Keys = Some [(''id'', Some (AttributeValue None None None None None None None
                                       None (Some ''k1'') None))],
           raw_NewImage = None, raw_OldImage = None,
           raw_SequenceNumber = Some ''111'', raw_SizeBytes = Some 26,
           raw_StreamViewType = Some ''KEYS_ONLY''\<rparr>"
      "Time 1234567890 0" "Some ''arn:stream''"]
  by (simp add: transform_def NewRecord_def NewStreamRecord_def range_entries_def Unix_def
      json_DynamoDBEvent_def json_Record_def json_StreamRecord_def omitempty_map_def
      json_string_def json_int64_def)

subsection \<open>Acquisition\<close>

lemma index_last: "xs \<noteq> [] \<Longrightarrow> index xs (int (length xs) - 1) = Inr (last xs)"
  by (simp add: index_def last_conv_nth nat_diff_distrib')

lemma iterator_requests_append:
  "iterator_requests (xs @ ys) = iterator_requests xs @ iterator_requests ys"
  by (induction xs rule: iterator_requests.induct) simp_all

lemma polls_append: "polls (xs @ ys) = polls xs @ polls ys"
  by (induction xs rule: polls.induct) simp_all

lemma process_records_iterator_requests:
  "iterator_requests (snd (process_records a w arn h rs)) = iterator_requests h"
  by (induction rs arbitrary: h)
     (auto simp: iterator_requests_append Let_def split: sum.splits option.splits)

lemma poll_loop_iterator_requests:
  "iterator_requests (snd (poll_loop a w arn itr h answers)) = iterator_requests h"
proof (induction answers arbitrary: h itr)
  case Nil
  then show ?case by (simp split: option.splits)
next
  case (Cons answer answers)
  show ?case
  proof (cases itr)
    case None
    then show ?thesis by simp
  next
    case (Some tok)
    show ?thesis
    proof (cases answer)
      case (Inl err)
      then show ?thesis using Some by (simp add: iterator_requests_append)
    next
      case (Inr gro)
      obtain oc h' where pr:
        "process_records a w arn (h @ [GetRecords_call (Some tok)]) (out_Records gro) = (oc, h')"
        by (cases "process_records a w arn (h @ [GetRecords_call (Some tok)]) (out_Records gro)")
      have h': "iterator_requests h' = iterator_requests h"
        using process_records_iterator_requests
          [of a w arn "h @ [GetRecords_call (Some tok)]" "out_Records gro"] pr
        by (simp add: iterator_requests_append)
      show ?thesis
        using Some Inr pr h' Cons.IH [of "NextShardIterator gro" "h' @ [Sleep 5]"]
        by (auto simp: iterator_requests_append split: option.splits)
    qed
  qed
qed

text \<open>
  C6. When the table's stream resolves and its shard listing is not empty, the run makes
  one request for a shard iterator in all: for the last shard of the listing, on the
  table's stream, with the iterator type \<^verbatim>\<open>TRIM_HORIZON\<close>. This holds however the request
  is answered and however long the polling goes on.
\<close>

theorem Run_requests_last_shard_at_trim_horizon:
  assumes "DescribeTable w (table a) = Inr dto"
    and "LatestStreamArn dto = Some arn"
    and "arn \<noteq> ''''"
    and "DescribeStream w (Some arn) = Inr dso"
    and "Shards dso \<noteq> []"
  shows "iterator_requests (snd (Run a w))
    = [\<lparr>in_ShardId = ShardId (last (Shards dso)),
        in_StreamArn = Some arn,
        in_ShardIteratorType = Some ''TRIM_HORIZON''\<rparr>]"
  using assms
  by (simp add: Run_def Let_def index_last ShardIteratorTypeTrimHorizon_def
      poll_loop_iterator_requests split: sum.splits)

theorem Run_requests_last_shard_at_trim_horizon_witness:
  "''arn:stream'' \<noteq> ''''
   \<and> Shards \<lparr>Shards = [\<lparr>ShardId = Some ''shard-0''\<rparr>, \<lparr>ShardId = Some ''shard-1''\<rparr>]\<rparr> \<noteq> []
   \<and> iterator_requests (snd (Run \<lparr>table = ''orders'', command = ''wc'', args = [''-l'']\<rparr>
       \<lparr>DescribeTable = (\<lambda>t. Inr \<lparr>LatestStreamArn = Some ''arn:stream''\<rparr>),
        DescribeStream = (\<lambda>s. Inr
          \<lparr>Shards = [\<lparr>ShardId = Some ''shard-0''\<rparr>, \<lparr>ShardId = Some ''shard-1''\<rparr>]\<rparr>),
        GetShardIterator = (\<lambda>i. Inr \<lparr>ShardIterator = Some ''it0''\<rparr>),
        GetRecords = [Inr \<lparr>out_Records = [], NextShardIterator = Some ''''\<rparr>],
        StdinPipe = (\<lambda>h. None), pipe_holds = (\<lambda>rj. True),
        CombinedOutput = (\<lambda>h c as rj. Inr [])\<rparr>))
     = [\<lparr>in_ShardId = Some ''shard-1'', in_StreamArn = Some ''arn:stream'',
         in_ShardIteratorType = Some ''TRIM_HORIZON''\<rparr>]"
  using Run_requests_last_shard_at_trim_horizon [of
      "\<lparr>DescribeTable = (\<lambda>t. Inr \<lparr>LatestStreamArn = Some ''arn:stream''\<rparr>),
        DescribeStream = (\<lambda>s. Inr
          \<lparr>Shards = [\<lparr>ShardId = Some ''shard-0''\<rparr>, \<lparr>ShardId = Some ''shard-1''\<rparr>]\<rparr>),
        GetShardIterator = (\<lambda>i. Inr \<lparr>ShardIterator = Some ''it0''\<rparr>),
        GetRecords = [Inr \<lparr>out_Records = [], NextShardIterator = Some ''''\<rparr>],
        StdinPipe = (\<lambda>h. None), pipe_holds = (\<lambda>rj. True),
        CombinedOutput = (\<lambda>h c as rj. Inr [])\<rparr>"
      "\<lparr>table = ''orders'', command = ''wc'', args = [''-l'']\<rparr>"
      "\<lparr>LatestStreamArn = Some ''arn:stream''\<rparr>" "''arn:stream''"
      "\<lparr>Shards = [\<lparr>ShardId = Some ''shard-0''\<rparr>, \<lparr>ShardId = Some ''shard-1''\<rparr>]\<rparr>"]
  by simp

text \<open>
  C8. When the table's stream resolves and its shard listing is empty, the run panics
  with an index out of range while it builds the request for the shard iterator: no
  error is returned and the request is never made.
\<close>

theorem Run_empty_shard_listing_panics:
  assumes "DescribeTable w (table a) = Inr dto"
    and "LatestStreamArn dto = Some arn"
    and "arn \<noteq> ''''"
    and "DescribeStream w (Some arn) = Inr dso"
    and "Shards dso = []"
  shows "Run a w = (Some (Panicked IndexOutOfRange),
                    [DescribeTable_call (table a), DescribeStream_call (Some arn)])
    \<and> iterator_requests (snd (Run a w)) = []
    \<and> (\<forall>err. fst (Run a w) \<noteq> Some (Returned err))"
  using assms by (simp add: Run_def Let_def index_def)

theorem Run_empty_shard_listing_panics_witness:
  "''arn:stream'' \<noteq> ''''
   \<and> Shards \<lparr>Shards = []\<rparr> = []
   \<and> Run \<lparr>table = ''orders'', command = ''wc'', args = [''-l'']\<rparr>
       \<lparr>DescribeTable = (\<lambda>t. Inr \<lparr>LatestStreamArn = Some ''arn:stream''\<rparr>),
        DescribeStream = (\<lambda>s. Inr \<lparr>Shards = []\<rparr>),
        GetShardIterator = (\<lambda>i. Inr \<lparr>ShardIterator = Some ''it0''\<rparr>),
        GetRecords = [Inr \<lparr>out_Records = [], NextShardIterator = Some ''''\<rparr>],
        StdinPipe = (\<lambda>h. None), pipe_holds = (\<lambda>rj. True),
        CombinedOutput = (\<lambda>h c as rj. Inr [])\<rparr>
     = (Some (Panicked IndexOutOfRange),
        [DescribeTable_call ''orders'', DescribeStream_call (Some ''arn:stream'')])"
  using Run_empty_shard_listing_panics [of
      "\<lparr>DescribeTable = (\<lambda>t. Inr \<lparr>LatestStreamArn = Some ''arn:stream''\<rparr>),
        DescribeStream = (\<lambda>s. Inr \<lparr>Shards = []\<rparr>),
        GetShardIterator = (\<lambda>i. Inr \<lparr>ShardIterator = Some ''it0''\<rparr>),
        GetRecords = [Inr \<lparr>out_Records = [], NextShardIterator = Some ''''\<rparr>],
        StdinPipe = (\<lambda>h. None), pipe_holds = (\<lambda>rj. True),
        CombinedOutput = (\<lambda>h c as rj. Inr [])\<rparr>"
      "\<lparr>table = ''orders'', command = ''wc'', args = [''-l'']\<rparr>"
      "\<lparr>LatestStreamArn = Some ''arn:stream''\<rparr>" "''arn:stream''" "\<lparr>Shards = []\<rparr>"]
  by simp

subsection \<open>Events that end the run\<close>

lemma quiet_from_append:
  "quiet_from w h (xs @ ys) \<longleftrightarrow> quiet_from w h xs \<and> quiet_from w (h @ xs) ys"
  by (induction xs arbitrary: h) auto

lemma quiet_snoc: "quiet w (h @ [e]) \<longleftrightarrow> quiet w h \<and> ends_run w h e = None"
  by (simp add: quiet_def quiet_from_append)

lemma quiet_middle: "quiet w (h1 @ e # h2) \<Longrightarrow> ends_run w h1 e = None"
  by (simp add: quiet_def quiet_from_append)

text \<open>
  A result is \<open>settled\<close> when its trace is quiet, or when its trace is a quiet trace
  followed by one failing event and the outcome is the one this event forces.
\<close>

lemma process_records_settled:
  assumes "quiet w h" and "process_records a w arn h rs = (oc, tr)"
  shows "(oc = None \<and> quiet w tr)
    \<or> (\<exists>h' e out. tr = h' @ [e] \<and> quiet w h' \<and> ends_run w h' e = Some out \<and> oc = Some out)"
  using assms
proof (induction rs arbitrary: h)
  case Nil
  then show ?case by simp
next
  case (Cons r rs)
  show ?case
  proof (cases "NewRecord r")
    case (Inl p)
    then have "tr = h @ [NewRecord_call r]" "oc = Some (Panicked p)"
      using Cons.prems(2) by (simp_all add: transform_def Let_def)
    moreover have "ends_run w h (NewRecord_call r) = Some (Panicked p)"
      using Inl by simp
    ultimately show ?thesis
      using Cons.prems(1) by blast
  next
    case (Inr nr)
    let ?rj = "json_DynamoDBEvent \<lparr>Records = [nr\<lparr>EventSourceArn := arn\<rparr>]\<rparr>"
    let ?h1 = "h @ [NewRecord_call r]"
    let ?h2 = "?h1 @ [Stdin_write ?rj]"
    let ?run = "Command_run (command a) (args a) ?rj"
    have q1: "quiet w ?h1"
      using Cons.prems(1) Inr by (simp add: quiet_snoc)
    show ?thesis
    proof (cases "StdinPipe w ?h1")
      case (Some err)
      then have "tr = ?h2" "oc = Some (Panicked NilPointerDereference)"
        using Cons.prems(2) Inr by (simp_all add: transform_def Let_def)
      moreover have "ends_run w ?h1 (Stdin_write ?rj) = Some (Panicked NilPointerDereference)"
        using Some by simp
      ultimately show ?thesis
        using q1 by blast
    next
      case None
      show ?thesis
      proof (cases "pipe_holds w ?rj")
        case False
        then have "tr = ?h2" "oc = Some Blocked"
          using Cons.prems(2) Inr None by (simp_all add: transform_def Let_def)
        moreover have "ends_run w ?h1 (Stdin_write ?rj) = Some Blocked"
          using None False by simp
        ultimately show ?thesis
          using q1 by blast
      next
        case True
        have q2: "quiet w ?h2"
          using q1 None True quiet_snoc [of w ?h1 "Stdin_write ?rj"] by simp
        show ?thesis
        proof (cases "CombinedOutput w ?h2 (command a) (args a) ?rj")
          case (Inl err)
          then have "tr = ?h2 @ [?run]"
            "oc = Some (Returned (Some (errors_Wrap err ''failed cmd'')))"
            using Cons.prems(2) Inr None True by (simp_all add: transform_def Let_def)
          moreover have "ends_run w ?h2 ?run
              = Some (Returned (Some (errors_Wrap err ''failed cmd'')))"
            using Inl by simp
          ultimately show ?thesis
            using q2 by blast
        next
          case out: (Inr out)
          have q3: "quiet w (?h2 @ [?run, Sleep 5])"
            using q2 out quiet_snoc [of w "?h2 @ [?run]" "Sleep 5"] quiet_snoc [of w ?h2 ?run]
            by simp
          have "process_records a w arn (?h2 @ [?run, Sleep 5]) rs = (oc, tr)"
            using Cons.prems(2) Inr None True out by (simp add: transform_def Let_def)
          then show ?thesis
            using Cons.IH [OF q3] by blast
        qed
      qed
    qed
  qed
qed

lemma poll_loop_settled:
  assumes "quiet w h" and "poll_loop a w arn itr h answers = (oc, tr)"
  shows "quiet w tr
    \<or> (\<exists>h' e out. tr = h' @ [e] \<and> quiet w h' \<and> ends_run w h' e = Some out \<and> oc = Some out)"
  using assms
proof (induction answers arbitrary: h itr)
  case Nil
  then show ?case by (auto split: option.splits)
next
  case (Cons answer answers)
  show ?case
  proof (cases itr)
    case None
    then show ?thesis using Cons.prems by auto
  next
    case (Some tok)
    have q0: "quiet w (h @ [GetRecords_call (Some tok)])"
      using Cons.prems(1) by (simp add: quiet_snoc)
    show ?thesis
    proof (cases answer)
      case (Inl err)
      then show ?thesis using Some Cons.prems(2) q0 by auto
    next
      case (Inr gro)
      obtain oc1 h1 where pr:
        "process_records a w arn (h @ [GetRecords_call (Some tok)]) (out_Records gro) = (oc1, h1)"
        by (cases "process_records a w arn (h @ [GetRecords_call (Some tok)]) (out_Records gro)")
      note settled = process_records_settled [OF q0 pr]
      show ?thesis
      proof (cases oc1)
        case ended: (Some out1)
        then have "oc = oc1" "tr = h1"
          using Some Inr pr Cons.prems(2) by simp_all
        then show ?thesis using settled ended by auto
      next
        case None
        then have q1: "quiet w h1"
          using settled by auto
        show ?thesis
        proof (cases "NextShardIterator gro")
          case closed: None
          then have "tr = h1"
            using Some Inr pr None Cons.prems(2) by simp
          then show ?thesis using q1 by simp
        next
          case tok: (Some nx)
          show ?thesis
          proof (cases "nx = ''''")
            case True
            then have "tr = h1"
              using Some Inr pr None tok Cons.prems(2) by simp
            then show ?thesis using q1 by simp
          next
            case False
            have q2: "quiet w (h1 @ [Sleep 5])"
              using q1 by (simp add: quiet_snoc)
            have "poll_loop a w arn (Some nx) (h1 @ [Sleep 5]) answers = (oc, tr)"
              using Some Inr pr None tok False Cons.prems(2) by simp
            then show ?thesis
              using Cons.IH [OF q2] by blast
          qed
        qed
      qed
    qed
  qed
qed

lemma Run_settled:
  assumes "Run a w = (oc, tr)"
  shows "quiet w tr
    \<or> (\<exists>h' e out. tr = h' @ [e] \<and> quiet w h' \<and> ends_run w h' e = Some out \<and> oc = Some out)"
proof -
  have q: "quiet w [DescribeTable_call t, DescribeStream_call s, GetShardIterator_call i]"
    "quiet w [DescribeTable_call t, DescribeStream_call s]"
    "quiet w [DescribeTable_call t]" for t s i
    by (simp_all add: quiet_def)
  consider
      (table) "tr = [DescribeTable_call (table a)]"
    | (stream) s where "tr = [DescribeTable_call (table a), DescribeStream_call s]"
    | (iterator) s i where
        "tr = [DescribeTable_call (table a), DescribeStream_call s, GetShardIterator_call i]"
    | (loop) s i arn itr where
        "poll_loop a w arn itr
           [DescribeTable_call (table a), DescribeStream_call s, GetShardIterator_call i]
           (GetRecords w) = (oc, tr)"
    using assms
    by (auto simp: Run_def Let_def split: sum.splits option.splits if_splits)
  then show ?thesis
  proof cases
    case table
    then show ?thesis using q(3) by simp
  next
    case stream
    then show ?thesis using q(2) by simp
  next
    case iterator
    then show ?thesis using q(1) by simp
  next
    case loop
    then show ?thesis using poll_loop_settled [OF q(1)] by blast
  qed
qed

text \<open>A failing event of a run is the last event of the run and decides its outcome.\<close>

lemma failing_event_is_last:
  assumes "Run a w = (oc, tr)" and "tr = h1 @ e # h2" and "ends_run w h1 e = Some out"
  shows "h2 = [] \<and> oc = Some out"
proof -
  have nq: "\<not> quiet w (h1 @ e # h2')" for h2'
    using quiet_middle [of w h1 e h2'] assms(3) by auto
  from Run_settled [OF assms(1)] nq assms(2)
  obtain h' e' out' where last: "tr = h' @ [e']" "quiet w h'" "ends_run w h' e' = Some out'"
    "oc = Some out'"
    by auto
  show ?thesis
  proof (cases h2 rule: rev_cases)
    case Nil
    then have "h1 = h'" "e = e'"
      using assms(2) last(1) by simp_all
    then show ?thesis
      using Nil last(3,4) assms(3) by simp
  next
    case (snoc h2' x)
    then have "h' = h1 @ e # h2'"
      using assms(2) last(1) by simp
    then show ?thesis
      using last(2) nq by simp
  qed
qed

text \<open>
  A sink process whose \<^verbatim>\<open>CombinedOutput\<close> returns an error is the last event of the run:
  no record is transformed or dispatched after it, the process is not started again, no
  further poll is made, and \<^verbatim>\<open>Run\<close> returns that error wrapped as \<^verbatim>\<open>failed cmd\<close>.
\<close>

lemma CombinedOutput_error_ends_run:
  assumes "Run a w = (oc, tr)"
    and "tr = h1 @ Command_run c as rj # h2"
    and "CombinedOutput w h1 c as rj = Inl err"
  shows "h2 = [] \<and> oc = Some (Returned (Some (errors_Wrap err ''failed cmd'')))"
  using failing_event_is_last [OF assms(1,2)] assms(3) by simp

text \<open>
  A write to the standard input of the sink that fails is the last event of the run as
  well, but the run does not return: it panics when the pipe could not be created, and
  it stays blocked when the pipe does not hold the document. In both cases
  \<^verbatim>\<open>CombinedOutput\<close> is never called, whatever the sink would have done.
\<close>

lemma stdin_failure_ends_run:
  assumes "Run a w = (oc, tr)"
    and "tr = h1 @ Stdin_write rj # h2"
    and "StdinPipe w h1 \<noteq> None \<or> \<not> pipe_holds w rj"
  shows "h2 = []
    \<and> oc = Some (if StdinPipe w h1 \<noteq> None then Panicked NilPointerDereference else Blocked)"
proof -
  have "ends_run w h1 (Stdin_write rj)
      = Some (if StdinPipe w h1 \<noteq> None then Panicked NilPointerDereference else Blocked)"
    using assms(3) by (auto split: option.splits)
  then show ?thesis
    using failing_event_is_last [OF assms(1,2)] by simp
qed

text \<open>
  C5. A batch of two records and three sinks that cannot be communicated with or
  started. When the pipe to the standard input of the sink cannot be created, the
  discarded error leaves a \<^verbatim>\<open>nil\<close> writer and the run panics in \<^verbatim>\<open>io.WriteString\<close>; when
  the pipe does not hold the document, the write that precedes the start of the process
  never ends, although the sink could not have been started: in both runs no error is
  returned, where the claim has \<^verbatim>\<open>Run\<close> return the dispatch error. When the pipe holds the
  document and \<^verbatim>\<open>CombinedOutput\<close> returns the error of the sink, \<^verbatim>\<open>Run\<close> returns it
  wrapped. In all three runs the second record is never handed to \<^verbatim>\<open>NewRecord\<close>.
\<close>

theorem dispatch_without_pipe_returns_no_error:
  "Run \<lparr>table = ''orders'', command = ''sink'', args = ['''']\<rparr>
     \<lparr>DescribeTable = (\<lambda>t. Inr \<lparr>LatestStreamArn = Some ''arn:stream''\<rparr>),
      DescribeStream = (\<lambda>s. Inr \<lparr>Shards = [\<lparr>ShardId = Some ''shard-0''\<rparr>]\<rparr>),
      GetShardIterator = (\<lambda>i. Inr \<lparr>ShardIterator = Some ''it0''\<rparr>),
      GetRecords = [Inr \<lparr>out_Records =
        [\<lparr>raw_AwsRegion = None,
          raw_Dynamodb = Some \<lparr>raw_ApproximateCreationDateTime = Some (Time 1 0),
            raw_Keys = None, raw_NewImage = None, raw_OldImage = None,
            raw_SequenceNumber = None, raw_SizeBytes = None, raw_StreamViewType = None\<rparr>,
          raw_EventID = Some ''e1'', raw_EventName = None, raw_EventSource = None,
          raw_EventVersion = None, raw_UserIdentity = None\<rparr>,
         \<lparr>raw_AwsRegion = None,
          raw_Dynamodb = Some \<lparr>raw_ApproximateCreationDateTime = Some (Time 2 0),
            raw_Keys = None, raw_NewImage = None, raw_OldImage = None,
            raw_SequenceNumber = None, raw_SizeBytes = None, raw_StreamViewType = None\<rparr>,
          raw_EventID = Some ''e2'', raw_EventName = None, raw_EventSource = None,
          raw_EventVersion = None, raw_UserIdentity = None\<rparr>],
        NextShardIterator = Some ''it1''\<rparr>],
      StdinPipe = (\<lambda>h. Some (errors_New ''pipe: too many open files'')),
      pipe_holds = (\<lambda>rj. True),
      CombinedOutput = (\<lambda>h c as rj. Inl (errors_New ''exit status 1''))\<rparr>
   = (Some (Panicked NilPointerDereference),
      [DescribeTable_call ''orders'',
       DescribeStream_call (Some ''arn:stream''),
       GetShardIterator_call \<lparr>in_ShardId = Some ''shard-0'', in_StreamArn = Some ''arn:stream'',
         in_ShardIteratorType = Some ''TRIM_HORIZON''\<rparr>,
       GetRecords_call (Some ''it0''),
       NewRecord_call \<lparr>raw_AwsRegion = None,
          raw_Dynamodb = Some \<lparr>raw_ApproximateCreationDateTime = Some (Time 1 0),
            raw_Keys = None, raw_NewImage = None, raw_OldImage = None,
            raw_SequenceNumber = None, raw_SizeBytes = None, raw_StreamViewType = None\<rparr>,
          raw_EventID = Some ''e1'', raw_EventName = None, raw_EventSource = None,
          raw_EventVersion = None, raw_UserIdentity = None\<rparr>,
       Stdin_write (JObject [(''Records'', JArray [JObject
         [(''AwsRegion'', JNull),
          (''Dynamodb'', JObject [(''ApproximateCreationDateTime'', JNumber 1),
             (''SequenceNumber'', JNull), (''SizeBytes'', JNull), (''StreamViewType'', JNull)]),
          (''EventID'', JString ''e1''), (''EventName'', JNull), (''EventSource'', JNull),
          (''EventVersion'', JNull), (''eventSourceARN'', JString ''arn:stream''),
          (''UserIdentity'', JNull)]])])])
   \<and> Run \<lparr>table = ''orders'', command = ''sink'', args = ['''']\<rparr>
     \<lparr>DescribeTable = (\<lambda>t. Inr \<lparr>LatestStreamArn = Some ''arn:stream''\<rparr>),
      DescribeStream = (\<lambda>s. Inr \<lparr>Shards = [\<lparr>ShardId = Some ''shard-0''\<rparr>]\<rparr>),
      GetShardIterator = (\<lambda>i. Inr \<lparr>ShardIterator = Some ''it0''\<rparr>),
      GetRecords = [Inr \<lparr>out_Records =
        [\<lparr>raw_AwsRegion = None,
          raw_Dynamodb = Some \<lparr>raw_ApproximateCreationDateTime = Some (Time 1 0),
            raw_Keys = None, raw_NewImage = None, raw_OldImage = None,
            raw_SequenceNumber = None, raw_SizeBytes = None, raw_StreamViewType = None\<rparr>,
          raw_EventID = Some ''e1'', raw_EventName = None, raw_EventSource = None,
          raw_EventVersion = None, raw_UserIdentity = None\<rparr>,
         \<lparr>raw_AwsRegion = None,
          raw_Dynamodb = Some \<lparr>raw_ApproximateCreationDateTime = Some (Time 2 0),
            raw_Keys = None, raw_NewImage = None, raw_OldImage = None,
            raw_SequenceNumber = None, raw_SizeBytes = None, raw_StreamViewType = None\<rparr>,
          raw_EventID = Some ''e2'', raw_EventName = None, raw_EventSource = None,
          raw_EventVersion = None, raw_UserIdentity = None\<rparr>],
        NextShardIterator = Some ''it1''\<rparr>],
      StdinPipe = (\<lambda>h. None),
      pipe_holds = (\<lambda>rj. False),
      CombinedOutput = (\<lambda>h c as rj. Inl (errors_New ''executable file not found''))\<rparr>
   = (Some Blocked,
      [DescribeTable_call ''orders'',
       DescribeStream_call (Some ''arn:stream''),
       GetShardIterator_call \<lparr>in_ShardId = Some ''shard-0'', in_StreamArn = Some ''arn:stream'',
         in_ShardIteratorType = Some ''TRIM_HORIZON''\<rparr>,
       GetRecords_call (Some ''it0''),
       NewRecord_call \<lparr>raw_AwsRegion = None,
          raw_Dynamodb = Some \<lparr>raw_ApproximateCreationDateTime = Some (Time 1 0),
            raw_Keys = None, raw_NewImage = None, raw_OldImage = None,
            raw_SequenceNumber = None, raw_SizeBytes = None, raw_StreamViewType = None\<rparr>,
          raw_EventID = Some ''e1'', raw_EventName = None, raw_EventSource = None,
          raw_EventVersion = None, raw_UserIdentity = None\<rparr>,
       Stdin_write (JObject [(''Records'', JArray [JObject
         [(''AwsRegion'', JNull),
          (''Dynamodb'', JObject [(''ApproximateCreationDateTime'', JNumber 1),
             (''SequenceNumber'', JNull), (''SizeBytes'', JNull), (''StreamViewType'', JNull)]),
          (''EventID'', JString ''e1''), (''EventName'', JNull), (''EventSource'', JNull),
          (''EventVersion'', JNull), (''eventSourceARN'', JString ''arn:stream''),
          (''UserIdentity'', JNull)]])])])
   \<and> Run \<lparr>table = ''orders'', command = ''sink'', args = ['''']\<rparr>
     \<lparr>DescribeTable = (\<lambda>t. Inr \<lparr>LatestStreamArn = Some ''arn:stream''\<rparr>),
      DescribeStream = (\<lambda>s. Inr \<lparr>Shards = [\<lparr>ShardId = Some ''shard-0''\<rparr>]\<rparr>),
      GetShardIterator = (\<lambda>i. Inr \<lparr>ShardIterator = Some ''it0''\<rparr>),
      GetRecords = [Inr \<lparr>out_Records =
        [\<lparr>raw_AwsRegion = None,
          raw_Dynamodb = Some \<lparr>raw_ApproximateCreationDateTime = Some (Time 1 0),
            raw_Keys = None, raw_NewImage = None, raw_OldImage = None,
            raw_SequenceNumber = None, raw_SizeBytes = None, raw_StreamViewType = None\<rparr>,
          raw_EventID = Some ''e1'', raw_EventName = None, raw_EventSource = None,
          raw_EventVersion = None, raw_UserIdentity = None\<rparr>,
         \<lparr>raw_AwsRegion = None,
          raw_Dynamodb = Some \<lparr>raw_ApproximateCreationDateTime = Some (Time 2 0),
            raw_Keys = None, raw_NewImage = None, raw_OldImage = None,
            raw_SequenceNumber = None, raw_SizeBytes = None, raw_StreamViewType = None\<rparr>,
          raw_EventID = Some ''e2'', raw_EventName = None, raw_EventSource = None,
          raw_EventVersion = None, raw_UserIdentity = None\<rparr>],
        NextShardIterator = Some ''it1''\<rparr>],
      StdinPipe = (\<lambda>h. None),
      pipe_holds = (\<lambda>rj. True),
      CombinedOutput = (\<lambda>h c as rj. Inl (errors_New ''exit status 1''))\<rparr>
   = (Some (Returned (Some (errors_Wrap (errors_New ''exit status 1'') ''failed cmd''))),
      [DescribeTable_call ''orders'',
       DescribeStream_call (Some ''arn:stream''),
       GetShardIterator_call \<lparr>in_ShardId = Some ''shard-0'', in_StreamArn = Some ''arn:stream'',
         in_ShardIteratorType = Some ''TRIM_HORIZON''\<rparr>,
       GetRecords_call (Some ''it0''),
       NewRecord_call \<lparr>raw_AwsRegion = None,
          raw_Dynamodb = Some \<lparr>raw_ApproximateCreationDateTime = Some (Time 1 0),
            raw_Keys = None, raw_NewImage = None, raw_OldImage = None,
            raw_SequenceNumber = None, raw_SizeBytes = None, raw_StreamViewType = None\<rparr>,
          raw_EventID = Some ''e1'', raw_EventName = None, raw_EventSource = None,
          raw_EventVersion = None, raw_UserIdentity = None\<rparr>,
       Stdin_write (JObject [(''Records'', JArray [JObject
         [(''AwsRegion'', JNull),
          (''Dynamodb'', JObject [(''ApproximateCreationDateTime'', JNumber 1),
             (''SequenceNumber'', JNull), (''SizeBytes'', JNull), (''StreamViewType'', JNull)]),
          (''EventID'', JString ''e1''), (''EventName'', JNull), (''EventSource'', JNull),
          (''EventVersion'', JNull), (''eventSourceARN'', JString ''arn:stream''),
          (''UserIdentity'', JNull)]])]),
       Command_run ''sink'' [''''] (JObject [(''Records'', JArray [JObject
         [(''AwsRegion'', JNull),
          (''Dynamodb'', JObject [(''ApproximateCreationDateTime'', JNumber 1),
             (''SequenceNumber'', JNull), (''SizeBytes'', JNull), (''StreamViewType'', JNull)]),
          (''EventID'', JString ''e1''), (''EventName'', JNull), (''EventSource'', JNull),
          (''EventVersion'', JNull), (''eventSourceARN'', JString ''arn:stream''),
          (''UserIdentity'', JNull)]])])])"
  by (simp add: Run_def Let_def index_def ShardIteratorTypeTrimHorizon_def transform_def NewRecord_def
      NewStreamRecord_def range_entries_def Unix_def json_DynamoDBEvent_def json_Record_def
      json_StreamRecord_def omitempty_map_def json_string_def json_int64_def)

text \<open>
  C9. \<^verbatim>\<open>NewStreamRecord\<close> returns a record only when the creation timestamp of the raw
  record is present (exactly when, moreover, the key mapping and the images encode);
  without the timestamp the call panics with a nil dereference. In a run, a record without
  timestamp that is handed to \<^verbatim>\<open>NewRecord\<close> is the last event: the run ends with that
  panic, and neither an error is returned nor the record skipped.
\<close>

theorem NewStreamRecord_requires_timestamp:
  "((\<exists>d. NewStreamRecord (Some sr) = Inr d) \<longleftrightarrow>
      raw_ApproximateCreationDateTime sr \<noteq> None
      \<and> (\<exists>ks. NewAttributeValueMap (range_entries (raw_Keys sr)) = Inr ks)
      \<and> (\<exists>ns. NewAttributeValueMap (range_entries (raw_NewImage sr)) = Inr ns)
      \<and> (\<exists>os. NewAttributeValueMap (range_entries (raw_OldImage sr)) = Inr os))
   \<and> (raw_ApproximateCreationDateTime sr = None
        \<longrightarrow> NewStreamRecord (Some sr) = Inl NilPointerDereference)
   \<and> (Run a w = (oc, tr) \<and> tr = h1 @ NewRecord_call r # h2
        \<and> raw_Dynamodb r = Some sr \<and> raw_ApproximateCreationDateTime sr = None
        \<longrightarrow> h2 = [] \<and> oc = Some (Panicked NilPointerDereference))"
proof (intro conjI impI)
  show "(\<exists>d. NewStreamRecord (Some sr) = Inr d) \<longleftrightarrow>
      raw_ApproximateCreationDateTime sr \<noteq> None
      \<and> (\<exists>ks. NewAttributeValueMap (range_entries (raw_Keys sr)) = Inr ks)
      \<and> (\<exists>ns. NewAttributeValueMap (range_entries (raw_NewImage sr)) = Inr ns)
      \<and> (\<exists>os. NewAttributeValueMap (range_entries (raw_OldImage sr)) = Inr os)"
    by (rule NewStreamRecord_total)
  show "NewStreamRecord (Some sr) = Inl NilPointerDereference"
    if "raw_ApproximateCreationDateTime sr = None"
    using that by (simp add: NewStreamRecord_def)
  show "h2 = []" and "oc = Some (Panicked NilPointerDereference)"
    if run: "Run a w = (oc, tr) \<and> tr = h1 @ NewRecord_call r # h2
        \<and> raw_Dynamodb r = Some sr \<and> raw_ApproximateCreationDateTime sr = None"
  proof -
    have "ends_run w h1 (NewRecord_call r) = Some (Panicked NilPointerDereference)"
      using run by (simp add: NewRecord_def NewStreamRecord_def)
    then have "h2 = [] \<and> oc = Some (Panicked NilPointerDereference)"
      using failing_event_is_last [of a w oc tr h1 "NewRecord_call r" h2] run by blast
    then show "h2 = []" and "oc = Some (Panicked NilPointerDereference)"
      by simp_all
  qed
qed

text \<open>
  The witness is a batch whose first record has no timestamp and whose second record has
  one: the run panics at the first, and the second is never handed to \<^verbatim>\<open>NewRecord\<close>.
\<close>

theorem NewStreamRecord_requires_timestamp_witness:
  "NewStreamRecord (Some \<lparr>raw_ApproximateCreationDateTime = None,
      raw_Keys = None, raw_NewImage = None, raw_OldImage = None,
      raw_SequenceNumber = None, raw_SizeBytes = None, raw_StreamViewType = None\<rparr>)
     = Inl NilPointerDereference
   \<and> Run \<lparr>table = ''orders'', command = ''wc'', args = [''-l'']\<rparr>
     \<lparr>DescribeTable = (\<lambda>t. Inr \<lparr>LatestStreamArn = Some ''arn:stream''\<rparr>),
      DescribeStream = (\<lambda>s. Inr \<lparr>Shards = [\<lparr>ShardId = Some ''shard-0''\<rparr>]\<rparr>),
      GetShardIterator = (\<lambda>i. Inr \<lparr>ShardIterator = Some ''it0''\<rparr>),
      GetRecords = [Inr \<lparr>out_Records =
        [\<lparr>raw_AwsRegion = None,
          raw_Dynamodb = Some \<lparr>raw_ApproximateCreationDateTime = None,
            raw_Keys = None, raw_NewImage = None, raw_OldImage = None,
            raw_SequenceNumber = None, raw_SizeBytes = None, raw_StreamViewType = None\<rparr>,
          raw_EventID = Some ''e1'', raw_EventName = None, raw_EventSource = None,
          raw_EventVersion = None, raw_UserIdentity = None\<rparr>,
         \<lparr>raw_AwsRegion = None,
          raw_Dynamodb = Some \<lparr>raw_ApproximateCreationDateTime = Some (Time 2 0),
            raw_Keys = None, raw_NewImage = None, raw_OldImage = None,
            raw_SequenceNumber = None, raw_SizeBytes = None, raw_StreamViewType = None\<rparr>,
          raw_EventID = Some ''e2'', raw_EventName = None, raw_EventSource = None,
          raw_EventVersion = None, raw_UserIdentity = None\<rparr>],
        NextShardIterator = Some ''''\<rparr>],
      StdinPipe = (\<lambda>h. None), pipe_holds = (\<lambda>rj. True),
      CombinedOutput = (\<lambda>h c as rj. Inr [])\<rparr>
   = (Some (Panicked NilPointerDereference),
      [DescribeTable_call ''orders'',
       DescribeStream_call (Some ''arn:stream''),
       GetShardIterator_call \<lparr>in_ShardId = Some ''shard-0'', in_StreamArn = Some ''arn:stream'',
         in_ShardIteratorType = Some ''TRIM_HORIZON''\<rparr>,
       GetRecords_call (Some ''it0''),
       NewRecord_call \<lparr>raw_AwsRegion = None,
          raw_Dynamodb = Some \<lparr>raw_ApproximateCreationDateTime = None,
            raw_Keys = None, raw_NewImage = None, raw_OldImage = None,
            raw_SequenceNumber = None, raw_SizeBytes = None, raw_StreamViewType = None\<rparr>,
          raw_EventID = Some ''e1'', raw_EventName = None, raw_EventSource = None,
          raw_EventVersion = None, raw_UserIdentity = None\<rparr>])"
  (is "NewStreamRecord (Some ?sr) = _ \<and> Run ?a ?w = (?oc, ?tr)")
proof -
  let ?r = "\<lparr>raw_AwsRegion = None, raw_Dynamodb = Some ?sr,
          raw_EventID = Some ''e1'', raw_EventName = None, raw_EventSource = None,
          raw_EventVersion = None, raw_UserIdentity = None\<rparr>"
  let ?h1 = "[DescribeTable_call ''orders'',
       DescribeStream_call (Some ''arn:stream''),
       GetShardIterator_call \<lparr>in_ShardId = Some ''shard-0'', in_StreamArn = Some ''arn:stream'',
         in_ShardIteratorType = Some ''TRIM_HORIZON''\<rparr>,
       GetRecords_call (Some ''it0'')]"
  note inst = NewStreamRecord_requires_timestamp
    [of ?sr ?a ?w "fst (Run ?a ?w)" "snd (Run ?a ?w)" ?h1 ?r "[]"]
  have absent: "raw_ApproximateCreationDateTime ?sr = None"
    by simp
  have trace: "snd (Run ?a ?w) = ?h1 @ NewRecord_call ?r # []"
    by (simp add: Run_def Let_def index_def ShardIteratorTypeTrimHorizon_def transform_def NewRecord_def
        NewStreamRecord_def)
  have dyn: "raw_Dynamodb ?r = Some ?sr"
    by simp
  have run: "Run ?a ?w = (fst (Run ?a ?w), snd (Run ?a ?w))"
    by simp
  have "NewStreamRecord (Some ?sr) = Inl NilPointerDereference"
    using conjunct1 [OF conjunct2 [OF inst]] absent by (rule mp)
  moreover have "[] = ([] :: event list) \<and> fst (Run ?a ?w) = ?oc"
    using conjunct2 [OF conjunct2 [OF inst]] run trace dyn absent by blast
  ultimately show ?thesis
    using trace by (simp add: prod_eq_iff)
qed

subsection \<open>The end of the polling loop\<close>

text \<open>A batch whose records are all transformed, with a sink that is always reached and
  never fails, is drained without a further poll.\<close>

lemma process_records_drains:
  assumes "\<forall>h c as rj. StdinPipe w h = None \<and> pipe_holds w rj
             \<and> (\<exists>out. CombinedOutput w h c as rj = Inr out)"
    and "\<forall>r \<in> set rs. \<exists>nr. NewRecord r = Inr nr"
  shows "\<exists>tr. process_records a w arn h rs = (None, tr) \<and> polls tr = polls h"
  using assms(2)
proof (induction rs arbitrary: h)
  case Nil
  then show ?case by simp
next
  case (Cons r rs)
  then obtain nr where nr: "NewRecord r = Inr nr"
    by auto
  let ?rj = "json_DynamoDBEvent \<lparr>Records = [nr\<lparr>EventSourceArn := arn\<rparr>]\<rparr>"
  let ?h2 = "h @ [NewRecord_call r, Stdin_write ?rj]"
  let ?run = "Command_run (command a) (args a) ?rj"
  have pipe: "StdinPipe w (h @ [NewRecord_call r]) = None" "pipe_holds w ?rj"
    using assms(1) by blast+
  obtain out where out: "CombinedOutput w ?h2 (command a) (args a) ?rj = Inr out"
    using assms(1) by blast
  have "\<exists>tr. process_records a w arn (?h2 @ [?run, Sleep 5]) rs = (None, tr)
      \<and> polls tr = polls (?h2 @ [?run, Sleep 5])"
    using Cons by simp
  then show ?case
    using nr pipe out by (simp add: transform_def Let_def polls_append)
qed

text \<open>
  The last answer decides how the loop ends. After answers that all carry a non-empty
  successor token, an answer whose successor token is the empty string makes the loop
  return normally, and an answer whose successor token is \<^verbatim>\<open>nil\<close> makes it panic; in
  both cases \<^verbatim>\<open>GetRecords\<close> has been called once per answer.
\<close>

lemma poll_loop_last_answer:
  assumes "\<forall>h c as rj. StdinPipe w h = None \<and> pipe_holds w rj
             \<and> (\<exists>out. CombinedOutput w h c as rj = Inr out)"
    and "\<forall>g \<in> set (pre @ [lst]). \<forall>r \<in> set (out_Records g). \<exists>nr. NewRecord r = Inr nr"
    and "\<forall>g \<in> set pre. \<exists>t. NextShardIterator g = Some t \<and> t \<noteq> ''''"
    and "NextShardIterator lst = None \<or> NextShardIterator lst = Some ''''"
  shows "\<exists>tr. poll_loop a w arn (Some tok) h (map Inr (pre @ [lst]) @ rest)
        = (Some (if NextShardIterator lst = None then Panicked NilPointerDereference
                 else Returned None), tr)
      \<and> length (polls tr) = length (polls h) + length pre + 1"
  using assms(2,3)
proof (induction pre arbitrary: tok h)
  case Nil
  obtain tr where tr:
    "process_records a w arn (h @ [GetRecords_call (Some tok)]) (out_Records lst) = (None, tr)"
    "polls tr = polls (h @ [GetRecords_call (Some tok)])"
    using process_records_drains [OF assms(1), of "out_Records lst"] Nil.prems(1) by fastforce
  then show ?case
    using assms(4) by (auto simp: polls_append)
next
  case (Cons g pre)
  obtain tr where tr:
    "process_records a w arn (h @ [GetRecords_call (Some tok)]) (out_Records g) = (None, tr)"
    "polls tr = polls (h @ [GetRecords_call (Some tok)])"
    using process_records_drains [OF assms(1), of "out_Records g"] Cons.prems(1) by fastforce
  obtain t where t: "NextShardIterator g = Some t" "t \<noteq> ''''"
    using Cons.prems(2) by auto
  have "\<exists>tr'. poll_loop a w arn (Some t) (tr @ [Sleep 5]) (map Inr (pre @ [lst]) @ rest)
        = (Some (if NextShardIterator lst = None then Panicked NilPointerDereference
                 else Returned None), tr')
      \<and> length (polls tr') = length (polls (tr @ [Sleep 5])) + length pre + 1"
    using Cons.IH [of t "tr @ [Sleep 5]"] Cons.prems by simp
  then show ?case
    using tr t by (auto simp: polls_append)
qed

text \<open>
  The same for a whole run whose acquisition succeeds: with \<open>N\<close> answers of which the
  first \<open>N - 1\<close> carry a non-empty successor token, \<^verbatim>\<open>GetRecords\<close> is called \<open>N\<close> times;
  the run then returns normally when the last successor token is the empty string and
  panics when it is \<^verbatim>\<open>nil\<close>.
\<close>

lemma Run_last_answer:
  assumes "DescribeTable w (table a) = Inr dto"
    and "LatestStreamArn dto = Some arn"
    and "arn \<noteq> ''''"
    and "DescribeStream w (Some arn) = Inr dso"
    and "Shards dso \<noteq> []"
    and "GetShardIterator w \<lparr>in_ShardId = ShardId (last (Shards dso)), in_StreamArn = Some arn,
           in_ShardIteratorType = Some ShardIteratorTypeTrimHorizon\<rparr> = Inr gsio"
    and "ShardIterator gsio = Some tok"
    and "GetRecords w = map Inr (pre @ [lst]) @ rest"
    and "\<forall>h c as rj. StdinPipe w h = None \<and> pipe_holds w rj
           \<and> (\<exists>out. CombinedOutput w h c as rj = Inr out)"
    and "\<forall>g \<in> set (pre @ [lst]). \<forall>r \<in> set (out_Records g). \<exists>nr. NewRecord r = Inr nr"
    and "\<forall>g \<in> set pre. \<exists>t. NextShardIterator g = Some t \<and> t \<noteq> ''''"
    and "NextShardIterator lst = None \<or> NextShardIterator lst = Some ''''"
  shows "\<exists>tr. Run a w
        = (Some (if NextShardIterator lst = None then Panicked NilPointerDereference
                 else Returned None), tr)
      \<and> length (polls tr) = length pre + 1"
proof -
  let ?h3 = "[DescribeTable_call (table a), DescribeStream_call (Some arn),
      GetShardIterator_call \<lparr>in_ShardId = ShardId (last (Shards dso)), in_StreamArn = Some arn,
        in_ShardIteratorType = Some ShardIteratorTypeTrimHorizon\<rparr>]"
  have "Run a w = poll_loop a w (Some arn) (Some tok) ?h3 (map Inr (pre @ [lst]) @ rest)"
    using assms(1-8) by (simp add: Run_def Let_def index_last)
  moreover have "polls ?h3 = []"
    by simp
  ultimately show ?thesis
    using poll_loop_last_answer [OF assms(9-12), of a "Some arn" tok ?h3 rest] by simp
qed

text \<open>
  C4. Two polls whose first answer carries the successor token \<^verbatim>\<open>it1\<close> and no record.
  When the second answer carries no successor token (\<^verbatim>\<open>nil\<close>, what the provider sends for
  a closed shard), the test \<^verbatim>\<open>*itr == ""\<close> dereferences \<^verbatim>\<open>nil\<close> and the run panics after
  the second call, where the claim has it terminate normally. When the second answer
  carries the empty string as successor token, the run returns normally after the second
  call.
\<close>

theorem Run_absent_next_token_panics:
  "Run \<lparr>table = ''orders'', command = ''wc'', args = [''-l'']\<rparr>
     \<lparr>DescribeTable = (\<lambda>t. Inr \<lparr>LatestStreamArn = Some ''arn:stream''\<rparr>),
      DescribeStream = (\<lambda>s. Inr \<lparr>Shards = [\<lparr>ShardId = Some ''shard-0''\<rparr>]\<rparr>),
      GetShardIterator = (\<lambda>i. Inr \<lparr>ShardIterator = Some ''it0''\<rparr>),
      GetRecords = [Inr \<lparr>out_Records = [], NextShardIterator = Some ''it1''\<rparr>,
                    Inr \<lparr>out_Records = [], NextShardIterator = None\<rparr>],
      StdinPipe = (\<lambda>h. None), pipe_holds = (\<lambda>rj. True),
      CombinedOutput = (\<lambda>h c as rj. Inr [])\<rparr>
   = (Some (Panicked NilPointerDereference),
      [DescribeTable_call ''orders'',
       DescribeStream_call (Some ''arn:stream''),
       GetShardIterator_call \<lparr>in_ShardId = Some ''shard-0'', in_StreamArn = Some ''arn:stream'',
         in_ShardIteratorType = Some ''TRIM_HORIZON''\<rparr>,
       GetRecords_call (Some ''it0''),
       Sleep 5,
       GetRecords_call (Some ''it1'')])
   \<and> Run \<lparr>table = ''orders'', command = ''wc'', args = [''-l'']\<rparr>
     \<lparr>DescribeTable = (\<lambda>t. Inr \<lparr>LatestStreamArn = Some ''arn:stream''\<rparr>),
      DescribeStream = (\<lambda>s. Inr \<lparr>Shards = [\<lparr>ShardId = Some ''shard-0''\<rparr>]\<rparr>),
      GetShardIterator = (\<lambda>i. Inr \<lparr>ShardIterator = Some ''it0''\<rparr>),
      GetRecords = [Inr \<lparr>out_Records = [], NextShardIterator = Some ''it1''\<rparr>,
                    Inr \<lparr>out_Records = [], NextShardIterator = Some ''''\<rparr>],
      StdinPipe = (\<lambda>h. None), pipe_holds = (\<lambda>rj. True),
      CombinedOutput = (\<lambda>h c as rj. Inr [])\<rparr>
   = (Some (Returned None),
      [DescribeTable_call ''orders'',
       DescribeStream_call (Some ''arn:stream''),
       GetShardIterator_call \<lparr>in_ShardId = Some ''shard-0'', in_StreamArn = Some ''arn:stream'',
         in_ShardIteratorType = Some ''TRIM_HORIZON''\<rparr>,
       GetRecords_call (Some ''it0''),
       Sleep 5,
       GetRecords_call (Some ''it1'')])"
  by (simp add: Run_def index_def ShardIteratorTypeTrimHorizon_def)

end
